theory Spec2Isabelle
  imports Complex_Main
begin

section \<open>Tensors\<close>

text \<open>
  A dense tensor is its shape together with its entries in row-major order, the way
  \<^verbatim>\<open>torch.Tensor\<close> and \<^verbatim>\<open>numpy.ndarray\<close> lay out a contiguous array.
  Floating-point numbers are idealised as real numbers: rounding, infinities and NaN are
  outside the model.  Every tensor that the libraries hand out satisfies \<open>wf_tensor\<close>.
\<close>

record 'a tensor =
  shape :: "nat list"
  data :: "'a list"

definition wf_tensor :: "'a tensor \<Rightarrow> bool" where
  "wf_tensor t \<longleftrightarrow> length (data t) = prod_list (shape t)"

definition numel :: "'a tensor \<Rightarrow> nat" where
  "numel t = prod_list (shape t)"

text \<open>The exception classes that the modelled code raises or handles.\<close>

datatype error = RuntimeError | IndexError | TypeError | ZeroDivisionError

text \<open>\<open>chunks m n xs\<close> cuts the first \<open>m * n\<close> entries of \<open>xs\<close> into \<open>m\<close> blocks of \<open>n\<close>.\<close>

definition chunks :: "nat \<Rightarrow> nat \<Rightarrow> 'a list \<Rightarrow> 'a list list" where
  "chunks m n xs = map (\<lambda>i. take n (drop (i * n) xs)) [0..<m]"

text \<open>
  A row-major \<open>r \<times> c\<close> matrix becomes the row-major \<open>c \<times> r\<close> matrix: entry \<open>(j, i)\<close>
  of the result, at position \<open>j * r + i\<close>, is entry \<open>(i, j)\<close> of the argument.
\<close>

definition transpose_mat :: "nat \<Rightarrow> nat \<Rightarrow> 'a list \<Rightarrow> 'a list" where
  "transpose_mat r c xs = map (\<lambda>k. xs ! ((k mod r) * c + k div r)) [0..<r * c]"

text \<open>
  \<^verbatim>\<open>t.transpose(-1, -2)\<close>: swaps the last two dimensions of every matrix of the batch;
  PyTorch raises \<^verbatim>\<open>IndexError\<close> (dimension out of range) on a tensor with fewer than
  two dimensions.
\<close>

definition transpose_last2 :: "'a tensor \<Rightarrow> error + 'a tensor" where
  "transpose_last2 t =
     (if length (shape t) < 2 then Inl IndexError
      else let pre = butlast (butlast (shape t));
               r = last (butlast (shape t));
               c = last (shape t)
           in Inr \<lparr>shape = pre @ [c, r],
                   data = concat (map (transpose_mat r c) (chunks (prod_list pre) (r * c) (data t)))\<rparr>)"

section \<open>\<^verbatim>\<open>gpytorch/lazy/non_lazy_variable.py\<close>\<close>

text \<open>
  \<^verbatim>\<open>
  class NonLazyVariable(LazyVariable):
      def __init__(self, var):
          super(NonLazyVariable, self).__init__(var)
          self.var = var
      def evaluate(self):
          return self.var
      def _transpose_nonbatch(self):
          return NonLazyVariable(self.var.transpose(-1, -2))
  \<close>
\<close>

record 'a NonLazyVariable =
  var :: "'a tensor"

definition NonLazyVariable_init :: "'a tensor \<Rightarrow> 'a NonLazyVariable" where
  "NonLazyVariable_init v = \<lparr>var = v\<rparr>"

definition evaluate :: "'a NonLazyVariable \<Rightarrow> 'a tensor" where
  "evaluate self = var self"

definition transpose_nonbatch :: "'a NonLazyVariable \<Rightarrow> error + 'a NonLazyVariable" where
  "transpose_nonbatch self =
     (case transpose_last2 (var self) of
        Inl e \<Rightarrow> Inl e
      | Inr t \<Rightarrow> Inr (NonLazyVariable_init t))"

section \<open>Tensor operations used by the contour quadrature\<close>

text \<open>Sequencing of computations that may raise: the first exception wins.\<close>

definition bind_err :: "error + 'a \<Rightarrow> ('a \<Rightarrow> error + 'b) \<Rightarrow> error + 'b" where
  "bind_err m f = (case m of Inl e \<Rightarrow> Inl e | Inr x \<Rightarrow> f x)"

text \<open>\<^verbatim>\<open>torch.zeros(*sh)\<close>.\<close>

definition zeros :: "nat list \<Rightarrow> real tensor" where
  "zeros sh = \<lparr>shape = sh, data = replicate (prod_list sh) 0\<rparr>"

text \<open>
  The broadcasting rule of NumPy and PyTorch: the shorter shape is padded with leading
  ones, and two sizes go together when they are equal or one of them is 1.
\<close>

definition pad_shape :: "nat \<Rightarrow> nat list \<Rightarrow> nat list" where
  "pad_shape n sh = replicate (n - length sh) 1 @ sh"

definition broadcast_shape :: "nat list \<Rightarrow> nat list \<Rightarrow> error + nat list" where
  "broadcast_shape a b =
     (let n = max (length a) (length b);
          a' = pad_shape n a;
          b' = pad_shape n b
      in if list_all2 (\<lambda>x y. x = y \<or> x = 1 \<or> y = 1) a' b'
         then Inr (map2 (\<lambda>x y. if x = 1 then y else x) a' b')
         else Inl RuntimeError)"

text \<open>
  Modelled from the spec: \<^verbatim>\<open>gpytorch/utils/broadcasting.py\<close> is not among the sources.
  \<^verbatim>\<open>_mul_broadcast_shape\<close> gives the combined broadcast shape of the operator's batch
  shape and the leading dimensions of \<^verbatim>\<open>rhs\<close>; shapes that cannot be broadcast are a
  fatal error for the caller.
\<close>

definition mul_broadcast_shape :: "nat list \<Rightarrow> nat list \<Rightarrow> error + nat list" where
  "mul_broadcast_shape a b = broadcast_shape a b"

text \<open>
  \<^verbatim>\<open>t.expand(*target)\<close>.  \<open>expand_data src target xs\<close> repeats the entries along
  every dimension whose size is 1 in \<open>src\<close>; \<open>src\<close> is the shape padded to the length of
  \<open>target\<close>.
\<close>

fun expand_data :: "nat list \<Rightarrow> nat list \<Rightarrow> 'a list \<Rightarrow> 'a list" where
  "expand_data (s # ss) (d # ds) xs =
     (if s = d then concat (map (expand_data ss ds) (chunks s (prod_list ss) xs))
      else concat (replicate d (expand_data ss ds xs)))"
| "expand_data _ _ xs = xs"

definition expand :: "'a tensor \<Rightarrow> nat list \<Rightarrow> error + 'a tensor" where
  "expand t target =
     (if length target < length (shape t) then Inl RuntimeError
      else let src = pad_shape (length target) (shape t)
           in if list_all2 (\<lambda>s d. s = d \<or> s = 1) src target
              then Inr \<lparr>shape = target, data = expand_data src target (data t)\<rparr>
              else Inl RuntimeError)"

text \<open>\<^verbatim>\<open>t.view(*sh)\<close> of a contiguous tensor.\<close>

definition view :: "'a tensor \<Rightarrow> nat list \<Rightarrow> error + 'a tensor" where
  "view t sh =
     (if prod_list sh = numel t then Inr \<lparr>shape = sh, data = data t\<rparr> else Inl RuntimeError)"

text \<open>\<^verbatim>\<open>t[0]\<close>, \<^verbatim>\<open>t[1:]\<close>, iteration over the leading dimension, \<^verbatim>\<open>torch.stack(ts, 0)\<close>.\<close>

definition index0 :: "'a tensor \<Rightarrow> error + 'a tensor" where
  "index0 t =
     (case shape t of
        [] \<Rightarrow> Inl IndexError
      | d # ds \<Rightarrow> if d = 0 then Inl IndexError
                 else Inr \<lparr>shape = ds, data = take (prod_list ds) (data t)\<rparr>)"

definition slice_from1 :: "'a tensor \<Rightarrow> error + 'a tensor" where
  "slice_from1 t =
     (case shape t of
        [] \<Rightarrow> Inl IndexError
      | d # ds \<Rightarrow> Inr \<lparr>shape = (d - 1) # ds, data = drop (prod_list ds) (data t)\<rparr>)"

definition unbind0 :: "'a tensor \<Rightarrow> error + 'a tensor list" where
  "unbind0 t =
     (case shape t of
        [] \<Rightarrow> Inl TypeError
      | d # ds \<Rightarrow> Inr (map (\<lambda>xs. \<lparr>shape = ds, data = xs\<rparr>) (chunks d (prod_list ds) (data t))))"

definition stack0 :: "'a tensor list \<Rightarrow> error + 'a tensor" where
  "stack0 ts =
     (case ts of
        [] \<Rightarrow> Inl RuntimeError
      | u # us \<Rightarrow> if list_all (\<lambda>v. shape v = shape u) us
                 then Inr \<lparr>shape = length ts # shape u, data = concat (map data ts)\<rparr>
                 else Inl RuntimeError)"

text \<open>Applying a fallible function to every element of a list, left to right.\<close>

fun map_err :: "('a \<Rightarrow> error + 'b) \<Rightarrow> 'a list \<Rightarrow> error + 'b list" where
  "map_err f [] = Inr []"
| "map_err f (x # xs) =
     (case f x of
        Inl e \<Rightarrow> Inl e
      | Inr y \<Rightarrow> (case map_err f xs of Inl e \<Rightarrow> Inl e | Inr ys \<Rightarrow> Inr (y # ys)))"

text \<open>
  \<^verbatim>\<open>rhs[0, ..., 0, ..., :, :1]\<close> with \<open>k\<close> leading zeros: \<open>k\<close> times the first entry of the
  leading dimension, then the first column of every matrix.
\<close>

fun index0_times :: "nat \<Rightarrow> 'a tensor \<Rightarrow> error + 'a tensor" where
  "index0_times 0 t = Inr t"
| "index0_times (Suc k) t = bind_err (index0 t) (index0_times k)"

definition first_column :: "'a tensor \<Rightarrow> error + 'a tensor" where
  "first_column t =
     (if length (shape t) < 2 then Inl IndexError
      else let c = last (shape t); rows = prod_list (butlast (shape t))
           in Inr \<lparr>shape = butlast (shape t) @ [min 1 c],
                   data = concat (map (take 1) (chunks rows c (data t)))\<rparr>)"

text \<open>
  Reductions.  \<^verbatim>\<open>t.min()\<close> over all entries raises \<^verbatim>\<open>RuntimeError\<close> on an empty
  tensor; \<^verbatim>\<open>t.max(dim=-1)[0]\<close> and \<^verbatim>\<open>t.min(dim=-1)[0]\<close> reduce the last dimension, which
  must not be empty, and leave a 0-dimensional tensor as it is.
\<close>

fun list_max :: "real list \<Rightarrow> real" where
  "list_max [] = 0"
| "list_max (x # xs) = fold max xs x"

fun list_min :: "real list \<Rightarrow> real" where
  "list_min [] = 0"
| "list_min (x # xs) = fold min xs x"

definition min_all :: "real tensor \<Rightarrow> error + real" where
  "min_all t = (if data t = [] then Inl RuntimeError else Inr (list_min (data t)))"

definition reduce_last :: "(real list \<Rightarrow> real) \<Rightarrow> real tensor \<Rightarrow> error + real tensor" where
  "reduce_last f t =
     (if shape t = [] then Inr t
      else if last (shape t) = 0 then Inl IndexError
      else Inr \<lparr>shape = butlast (shape t),
               data = map f (chunks (prod_list (butlast (shape t))) (last (shape t)) (data t))\<rparr>)"

definition max_last :: "real tensor \<Rightarrow> error + real tensor" where
  "max_last t = reduce_last list_max t"

definition min_last :: "real tensor \<Rightarrow> error + real tensor" where
  "min_last t = reduce_last list_min t"

text \<open>
  \<^verbatim>\<open>t.sum(dim=-2)\<close> and \<^verbatim>\<open>t.norm(dim=-2, keepdim=...)\<close> reduce the rows of every matrix
  of the batch; \<^verbatim>\<open>t.sum(dim=0)\<close> reduces the leading dimension.
\<close>

definition reduce_dim_m2 :: "(real list \<Rightarrow> real) \<Rightarrow> bool \<Rightarrow> real tensor \<Rightarrow> error + real tensor" where
  "reduce_dim_m2 f keepdim t =
     (if length (shape t) < 2 then Inl IndexError
      else let pre = butlast (butlast (shape t));
               n = last (butlast (shape t));
               k = last (shape t)
           in Inr \<lparr>shape = pre @ (if keepdim then [1, k] else [k]),
                   data = concat (map (\<lambda>blk. map (\<lambda>j. f (map (\<lambda>i. blk ! (i * k + j)) [0..<n])) [0..<k])
                                      (chunks (prod_list pre) (n * k) (data t)))\<rparr>)"

definition sum_dim_m2 :: "real tensor \<Rightarrow> error + real tensor" where
  "sum_dim_m2 t = reduce_dim_m2 sum_list False t"

definition norm_dim_m2 :: "bool \<Rightarrow> real tensor \<Rightarrow> error + real tensor" where
  "norm_dim_m2 keepdim t = reduce_dim_m2 (\<lambda>xs. sqrt (sum_list (map (\<lambda>x. x ^ 2) xs))) keepdim t"

definition sum_dim0 :: "real tensor \<Rightarrow> error + real tensor" where
  "sum_dim0 t =
     (case shape t of
        [] \<Rightarrow> Inr t
      | d # ds \<Rightarrow> Inr \<lparr>shape = ds,
                       data = map (\<lambda>j. sum_list (map (\<lambda>i. data t ! (i * prod_list ds + j)) [0..<d]))
                                  [0..<prod_list ds]\<rparr>)"

text \<open>
  Elementwise operations.  A binary operation broadcasts its operands; the in-place forms
  \<^verbatim>\<open>div_\<close> and \<^verbatim>\<open>sub_\<close> moreover need the result to have the shape of the receiver.
  Tensor division follows IEEE arithmetic in PyTorch and never raises; where a divisor is
  zero the program's value is infinite or not a number, and the value of the model there
  (HOL's \<open>x / 0 = 0\<close>) stands for nothing.
\<close>

definition map_tensor :: "('a \<Rightarrow> 'b) \<Rightarrow> 'a tensor \<Rightarrow> 'b tensor" where
  "map_tensor f t = \<lparr>shape = shape t, data = map f (data t)\<rparr>"

definition broadcast2 :: "(real \<Rightarrow> real \<Rightarrow> real) \<Rightarrow> real tensor \<Rightarrow> real tensor \<Rightarrow> error + real tensor" where
  "broadcast2 f a b =
     bind_err (broadcast_shape (shape a) (shape b)) (\<lambda>sh.
     bind_err (expand a sh) (\<lambda>a'.
     bind_err (expand b sh) (\<lambda>b'.
     Inr \<lparr>shape = sh, data = map2 f (data a') (data b')\<rparr>)))"

definition inplace2 :: "(real \<Rightarrow> real \<Rightarrow> real) \<Rightarrow> real tensor \<Rightarrow> real tensor \<Rightarrow> error + real tensor" where
  "inplace2 f a b =
     bind_err (broadcast2 f a b) (\<lambda>r. if shape r = shape a then Inr r else Inl RuntimeError)"

definition clamp_min :: "real tensor \<Rightarrow> real \<Rightarrow> real tensor" where
  "clamp_min t c = map_tensor (\<lambda>x. max x c) t"

text \<open>\<^verbatim>\<open>t.mean().item()\<close>.\<close>

definition mean_item :: "real tensor \<Rightarrow> real" where
  "mean_item t = sum_list (data t) / real (length (data t))"

text \<open>
  \<^verbatim>\<open>dst[r0:, i].copy_(src)\<close> on a two-dimensional \<open>dst\<close>: entry \<open>j\<close> of \<open>src\<close> goes to row
  \<open>r0 + j\<close>, column \<open>i\<close>.  The sizes must agree (the source never has a single entry to
  broadcast against more rows than one here).
\<close>

fun write_col :: "nat \<Rightarrow> nat \<Rightarrow> nat \<Rightarrow> 'a list \<Rightarrow> 'a list \<Rightarrow> 'a list" where
  "write_col C i r [] xs = xs"
| "write_col C i r (v # vs) xs = write_col C i (Suc r) vs (xs[r * C + i := v])"

definition copy_col :: "nat \<Rightarrow> nat \<Rightarrow> 'a list \<Rightarrow> 'a tensor \<Rightarrow> error + 'a tensor" where
  "copy_col r0 i src dst =
     (case shape dst of
        [R, C] \<Rightarrow> if i < C \<and> length src = R - r0
                  then Inr \<lparr>shape = [R, C], data = write_col C i r0 src (data dst)\<rparr>
                  else Inl (if i < C then RuntimeError else IndexError)
      | _ \<Rightarrow> Inl IndexError)"

section \<open>\<^verbatim>\<open>gpytorch/utils/contour_integral_quad.py\<close>\<close>

subsection \<open>Collaborators\<close>

text \<open>
  The operator \<^verbatim>\<open>lazy_tensor\<close>: its batch and matrix shapes, \<^verbatim>\<open>_matmul\<close> (field
  \<open>matmul\<close>), \<^verbatim>\<open>__matmul__\<close> (the \<^verbatim>\<open>@\<close> of the diagnostics, field \<open>dunder_matmul\<close>) and
  \<^verbatim>\<open>diag()\<close>.
\<close>

record lazy_tensor =
  batch_shape :: "nat list"
  matrix_shape :: "nat list"
  matmul :: "real tensor \<Rightarrow> real tensor"
  dunder_matmul :: "real tensor \<Rightarrow> real tensor"
  diag :: "real tensor"

definition lt_shape :: "lazy_tensor \<Rightarrow> nat list" where
  "lt_shape lt = batch_shape lt @ matrix_shape lt"

definition lt_dim :: "lazy_tensor \<Rightarrow> nat" where
  "lt_dim lt = length (lt_shape lt)"

text \<open>
  The functions imported from outside the file.  \<^verbatim>\<open>lanczos_tridiag\<close> gets the product
  closure, \<^verbatim>\<open>init_vecs\<close>, \<^verbatim>\<open>matrix_shape\<close>, \<^verbatim>\<open>batch_shape\<close> and \<^verbatim>\<open>max_iter\<close> and returns
  the basis and the tridiagonal matrix.  \<^verbatim>\<open>symeig()[0]\<close> gives the eigenvalues, or
  \<open>None\<close> when the decomposition fails, which PyTorch reports by raising
  \<^verbatim>\<open>RuntimeError\<close>.  \<^verbatim>\<open>ellipk(m)\<close> and \<^verbatim>\<open>ellipj(u, m)\<close> are SciPy's elliptic integral
  and Jacobi elliptic functions \<open>(sn, cn, dn, ph)\<close>, taken at one point.  \<^verbatim>\<open>minres\<close> gets
  the product closure, \<^verbatim>\<open>rhs\<close>, \<^verbatim>\<open>value\<close> and \<^verbatim>\<open>shifts\<close>.  The arguments
  \<^verbatim>\<open>dtype\<close> and \<^verbatim>\<open>device\<close> have no counterpart.  Apart from the failure of \<^verbatim>\<open>symeig\<close>, which
  the code handles, the calls of these functions and of the operator's methods are taken
  to return.
\<close>

record env =
  lanczos_tridiag :: "(real tensor \<Rightarrow> real tensor) \<Rightarrow> real tensor \<Rightarrow> nat list \<Rightarrow> nat list \<Rightarrow> int
                        \<Rightarrow> real tensor \<times> real tensor"
  symeig :: "real tensor \<Rightarrow> real tensor option"
  ellipk :: "real \<Rightarrow> real"
  ellipj :: "real \<Rightarrow> real \<Rightarrow> real \<times> real \<times> real \<times> real"
  minres :: "(real tensor \<Rightarrow> real tensor) \<Rightarrow> real tensor \<Rightarrow> real \<Rightarrow> real tensor \<Rightarrow> real tensor"

text \<open>The process-wide record \<^verbatim>\<open>settings.record_ciq_stats\<close>.\<close>

record ciq_stats =
  on :: bool
  condition_number :: real
  minres_residual :: real
  ciq_diff :: real

subsection \<open>Eigenvalue estimates (lines 36 to 70)\<close>

text \<open>
  \<^verbatim>\<open>
  num_extra_dims = max(0, rhs.dim() - lazy_tensor.dim())
  init_vecs = rhs.__getitem__(
      (*([0] * num_extra_dims), Ellipsis, slice(None, None, None), slice(None, 1, None))
  ).expand(*lazy_tensor.shape[:-1], 1)
  \<close>
\<close>

definition init_vecs :: "lazy_tensor \<Rightarrow> real tensor \<Rightarrow> error + real tensor" where
  "init_vecs lt rhs =
     (let num_extra_dims = length (shape rhs) - lt_dim lt
      in bind_err (index0_times num_extra_dims rhs) (\<lambda>r.
         bind_err (first_column r) (\<lambda>c.
         expand c (butlast (lt_shape lt) @ [1]))))"

text \<open>
  \<^verbatim>\<open>
  try:
      approx_eigs = lanczos_mat.symeig()[0]
      if approx_eigs.min() <= 0:
          raise RuntimeError
  except RuntimeError:
      approx_eigs = lazy_tensor.diag()
  \<close>
  \<open>approx_eigs_try\<close> is the body of the \<^verbatim>\<open>try\<close>, \<open>estimate_eigs\<close> the whole statement.
\<close>

definition approx_eigs_try :: "env \<Rightarrow> real tensor \<Rightarrow> error + real tensor" where
  "approx_eigs_try env lanczos_mat =
     (case symeig env lanczos_mat of
        None \<Rightarrow> Inl RuntimeError
      | Some approx_eigs \<Rightarrow>
          bind_err (min_all approx_eigs) (\<lambda>m.
          if m \<le> 0 then Inl RuntimeError else Inr approx_eigs))"

definition estimate_eigs :: "env \<Rightarrow> lazy_tensor \<Rightarrow> real tensor \<Rightarrow> error + real tensor" where
  "estimate_eigs env lt lanczos_mat =
     (case approx_eigs_try env lanczos_mat of
        Inl RuntimeError \<Rightarrow> Inr (diag lt)
      | Inl e \<Rightarrow> Inl e
      | Inr approx_eigs \<Rightarrow> Inr approx_eigs)"

text \<open>
  \<^verbatim>\<open>k2 = min_eig / max_eig\<close>: both operands have the shape of \<^verbatim>\<open>approx_eigs\<close> without
  its last dimension, so the division is entry by entry.
\<close>

definition eig_ratio :: "real tensor \<Rightarrow> real tensor \<Rightarrow> real tensor" where
  "eig_ratio min_eig max_eig =
     \<lparr>shape = shape min_eig, data = map2 (\<lambda>a b. a / b) (data min_eig) (data max_eig)\<rparr>"

text \<open>
  \<^verbatim>\<open>
  if settings.record_ciq_stats.on():
      settings.record_ciq_stats.condition_number = 1.0 / k2.mean().item()
  \<close>
  The division is one of Python floats and raises \<^verbatim>\<open>ZeroDivisionError\<close> when the mean is
  zero.  The mean is a number only if \<^verbatim>\<open>k2\<close> has entries and none of them came from a
  division by zero; otherwise it is infinite or not a number and Python divides without
  raising.
\<close>

definition record_condition_number :: "real tensor \<Rightarrow> real tensor \<Rightarrow> ciq_stats \<Rightarrow> error + ciq_stats" where
  "record_condition_number k2 max_eig st =
     (if on st then
        (let m = mean_item k2
         in if m = 0 \<and> data k2 \<noteq> [] \<and> 0 \<notin> set (data max_eig) then Inl ZeroDivisionError
            else Inr (st\<lparr>condition_number := 1 / m\<rparr>))
      else Inr st)"

text \<open>Lines 36 to 70 together: the Lanczos run, the estimates and their ratio.\<close>

definition eig_estimates ::
  "env \<Rightarrow> lazy_tensor \<Rightarrow> real tensor \<Rightarrow> int \<Rightarrow> ciq_stats
     \<Rightarrow> error + (real tensor \<times> real tensor \<times> ciq_stats)" where
  "eig_estimates env lt rhs max_lanczos_iter st =
     bind_err (init_vecs lt rhs) (\<lambda>iv.
     let (lanczos_basis, lanczos_mat) =
           lanczos_tridiag env (\<lambda>v. matmul lt v) iv (matrix_shape lt) (batch_shape lt) max_lanczos_iter
     in bind_err (estimate_eigs env lt lanczos_mat) (\<lambda>approx_eigs.
        bind_err (max_last approx_eigs) (\<lambda>max_eig.
        bind_err (min_last approx_eigs) (\<lambda>min_eig.
        let k2 = eig_ratio min_eig max_eig
        in bind_err (record_condition_number k2 max_eig st) (\<lambda>st'.
           Inr (k2, min_eig, st'))))))"

subsection \<open>Shifts and weights of the contour (lines 73 to 106)\<close>

text \<open>
  The body of the loop for one batch element, up to the two \<^verbatim>\<open>copy_\<close> calls:
  \<^verbatim>\<open>
  Kp = ellipk(1 - sub_k2)
  N = num_contour_quadrature
  t = 1j * (np.arange(1, N + 1) - 0.5) * Kp / N
  sn, cn, dn, _ = ellipj(np.imag(t), 1 - sub_k2)
  cn = 1.0 / cn
  dn = dn * cn
  sn = 1j * sn * cn
  w = np.sqrt(sub_min_eig) * sn
  w_pow2 = np.real(np.power(w, 2))
  sub_shifts = torch.tensor(w_pow2, dtype=rhs.dtype, device=rhs.device)
  constant = -2 * Kp * np.sqrt(sub_min_eig) / (math.pi * N)
  dzdt = torch.tensor(cn * dn, dtype=rhs.dtype, device=rhs.device)
  dzdt.mul_(constant)
  sub_weights = dzdt
  \<close>
\<close>

definition quadrature_element :: "env \<Rightarrow> int \<Rightarrow> real \<Rightarrow> real \<Rightarrow> real list \<times> real list" where
  "quadrature_element env num_contour_quadrature sub_k2 sub_min_eig =
     (let Kp = ellipk env (1 - sub_k2);
          N = num_contour_quadrature;
          t = map (\<lambda>j. \<i> * complex_of_real (real_of_int j - 1 / 2) * complex_of_real Kp
                          / complex_of_real (real_of_int N)) [1..N];
          ej = map (\<lambda>z. ellipj env (Im z) (1 - sub_k2)) t;
          sn = map (\<lambda>(sn, cn, dn, ph). sn) ej;
          cn = map (\<lambda>(sn, cn, dn, ph). cn) ej;
          dn = map (\<lambda>(sn, cn, dn, ph). dn) ej;
          cn = map (\<lambda>c. 1 / c) cn;
          dn = map2 (\<lambda>d c. d * c) dn cn;
          sn = map2 (\<lambda>s c. \<i> * complex_of_real s * complex_of_real c) sn cn;
          w = map (\<lambda>s. complex_of_real (sqrt sub_min_eig) * s) sn;
          w_pow2 = map (\<lambda>z. Re (z ^ 2)) w;
          sub_shifts = w_pow2;
          constant = - 2 * Kp * sqrt sub_min_eig / (pi * real_of_int N);
          dzdt = map2 (\<lambda>c d. c * d) cn dn;
          dzdt = map (\<lambda>x. x * constant) dzdt;
          sub_weights = dzdt
      in (sub_shifts, sub_weights))"

text \<open>
  \<^verbatim>\<open>
  for i, (sub_k2, sub_min_eig) in enumerate(zip(k2.flatten().tolist(), min_eig.flatten().tolist())):
      ...
      flat_shifts[1:, i].copy_(sub_shifts)
      flat_weights[:, i].copy_(sub_weights)
  \<close>
\<close>

fun contour_loop ::
  "env \<Rightarrow> int \<Rightarrow> nat \<Rightarrow> (real \<times> real) list \<Rightarrow> real tensor \<Rightarrow> real tensor
     \<Rightarrow> error + (real tensor \<times> real tensor)" where
  "contour_loop env N i [] flat_shifts flat_weights = Inr (flat_shifts, flat_weights)"
| "contour_loop env N i ((sub_k2, sub_min_eig) # rest) flat_shifts flat_weights =
     (case copy_col 1 i (fst (quadrature_element env N sub_k2 sub_min_eig)) flat_shifts of
        Inl e \<Rightarrow> Inl e
      | Inr flat_shifts' \<Rightarrow>
          (case copy_col 0 i (snd (quadrature_element env N sub_k2 sub_min_eig)) flat_weights of
             Inl e \<Rightarrow> Inl e
           | Inr flat_weights' \<Rightarrow> contour_loop env N (Suc i) rest flat_shifts' flat_weights'))"

text \<open>
  \<^verbatim>\<open>
  flat_shifts = torch.zeros(num_contour_quadrature + 1, k2.numel(), ...)
  flat_weights = torch.zeros(num_contour_quadrature, k2.numel(), ...)
  for ...
  \<close>
  \<^verbatim>\<open>torch.zeros\<close> raises \<^verbatim>\<open>RuntimeError\<close> on a negative size.
\<close>

definition contour_tables ::
  "env \<Rightarrow> int \<Rightarrow> real tensor \<Rightarrow> real tensor \<Rightarrow> error + (real tensor \<times> real tensor)" where
  "contour_tables env num_contour_quadrature k2 min_eig =
     (if num_contour_quadrature < 0 then Inl RuntimeError
      else let flat_shifts = zeros [nat (num_contour_quadrature + 1), numel k2];
               flat_weights = zeros [nat num_contour_quadrature, numel k2]
           in contour_loop env num_contour_quadrature 0 (zip (data k2) (data min_eig))
                flat_shifts flat_weights)"

text \<open>
  \<^verbatim>\<open>
  weights = flat_weights.view(num_contour_quadrature, *k2.shape, 1, 1)
  shifts = flat_shifts.view(num_contour_quadrature + 1, *k2.shape)
  if k2.shape != output_batch_shape:
      weights = torch.stack([w.expand(*output_batch_shape, 1, 1) for w in weights], 0)
      shifts = torch.stack([s.expand(output_batch_shape) for s in shifts], 0)
  \<close>
\<close>

definition expand_each :: "real tensor \<Rightarrow> nat list \<Rightarrow> error + real tensor" where
  "expand_each t target =
     bind_err (unbind0 t) (\<lambda>ts.
     bind_err (map_err (\<lambda>u. expand u target) ts) (\<lambda>us.
     stack0 us))"

definition shape_tables ::
  "int \<Rightarrow> nat list \<Rightarrow> nat list \<Rightarrow> real tensor \<Rightarrow> real tensor
     \<Rightarrow> error + (real tensor \<times> real tensor)" where
  "shape_tables num_contour_quadrature k2_shape output_batch_shape flat_shifts flat_weights =
     bind_err (view flat_weights (nat num_contour_quadrature # k2_shape @ [1, 1])) (\<lambda>weights.
     bind_err (view flat_shifts (nat (num_contour_quadrature + 1) # k2_shape)) (\<lambda>shifts.
     if k2_shape \<noteq> output_batch_shape then
       bind_err (expand_each weights (output_batch_shape @ [1, 1])) (\<lambda>weights'.
       bind_err (expand_each shifts output_batch_shape) (\<lambda>shifts'.
       Inr (weights', shifts')))
     else Inr (weights, shifts)))"

text \<open>The whole branch \<^verbatim>\<open>if shifts is None:\<close> (lines 34 to 106).\<close>

definition derive_shifts_weights ::
  "env \<Rightarrow> lazy_tensor \<Rightarrow> real tensor \<Rightarrow> int \<Rightarrow> int \<Rightarrow> nat list \<Rightarrow> ciq_stats
     \<Rightarrow> error + (real tensor \<times> real tensor \<times> ciq_stats)" where
  "derive_shifts_weights env lt rhs max_lanczos_iter num_contour_quadrature output_batch_shape st =
     bind_err (eig_estimates env lt rhs max_lanczos_iter st) (\<lambda>(k2, min_eig, st').
     bind_err (contour_tables env num_contour_quadrature k2 min_eig) (\<lambda>(flat_shifts, flat_weights).
     bind_err (shape_tables num_contour_quadrature (shape k2) output_batch_shape
                 flat_shifts flat_weights) (\<lambda>(weights, shifts).
     Inr (weights, shifts, st'))))"

subsection \<open>Diagnostics (lines 118 to 134)\<close>

text \<open>
  \<^verbatim>\<open>
  settings.record_ciq_stats.minres_residual = (
      (lazy_tensor @ no_shift_solves + rhs)
      .div_(rhs.norm(dim=-2, keepdim=True).clamp_min_(1e-10))
      .norm(dim=-2).mean().item()
  )
  \<close>
\<close>

definition minres_residual_divisor :: "real tensor \<Rightarrow> error + real tensor" where
  "minres_residual_divisor rhs =
     bind_err (norm_dim_m2 True rhs) (\<lambda>n. Inr (clamp_min n (1 / 10 ^ 10)))"

definition compute_minres_residual :: "lazy_tensor \<Rightarrow> real tensor \<Rightarrow> real tensor \<Rightarrow> error + real" where
  "compute_minres_residual lt no_shift_solves rhs =
     bind_err (broadcast2 (\<lambda>a b. a + b) (dunder_matmul lt no_shift_solves) rhs) (\<lambda>r.
     bind_err (minres_residual_divisor rhs) (\<lambda>dv.
     bind_err (inplace2 (\<lambda>a b. a / b) r dv) (\<lambda>q.
     bind_err (norm_dim_m2 False q) (\<lambda>n.
     Inr (mean_item n)))))"

text \<open>
  \<^verbatim>\<open>
  inv_quad_res = (no_shift_solves * rhs).sum(dim=-2).mul_(-1)
  settings.record_ciq_stats.ciq_diff = (
      ((inverse_solves * weights).sum(dim=0).pow(2).sum(dim=-2).sub_(inv_quad_res))
      .div_(inv_quad_res.clamp_min_(1e-5))
      .abs_().mean().item()
  )
  \<close>
  The receiver of \<^verbatim>\<open>div_\<close> is evaluated before its argument, so \<^verbatim>\<open>sub_\<close> sees
  \<^verbatim>\<open>inv_quad_res\<close> before it is clamped in place.  Multiplying a tensor by \<^verbatim>\<open>None\<close>
  raises \<^verbatim>\<open>TypeError\<close>.
\<close>

definition inv_quad_res :: "real tensor \<Rightarrow> real tensor \<Rightarrow> error + real tensor" where
  "inv_quad_res no_shift_solves rhs =
     bind_err (broadcast2 (\<lambda>a b. a * b) no_shift_solves rhs) (\<lambda>p.
     bind_err (sum_dim_m2 p) (\<lambda>s.
     Inr (map_tensor (\<lambda>x. x * (- 1)) s)))"

definition ciq_diff_divisor :: "real tensor \<Rightarrow> real tensor" where
  "ciq_diff_divisor iqr = clamp_min iqr (1 / 10 ^ 5)"

definition compute_ciq_diff ::
  "real tensor \<Rightarrow> real tensor option \<Rightarrow> real tensor \<Rightarrow> error + real" where
  "compute_ciq_diff inverse_solves weights iqr =
     (case weights of
        None \<Rightarrow> Inl TypeError
      | Some w \<Rightarrow>
          bind_err (broadcast2 (\<lambda>a b. a * b) inverse_solves w) (\<lambda>p.
          bind_err (sum_dim0 p) (\<lambda>s.
          bind_err (sum_dim_m2 (map_tensor (\<lambda>x. x ^ 2) s)) (\<lambda>s2.
          bind_err (inplace2 (\<lambda>a b. a - b) s2 iqr) (\<lambda>d.
          bind_err (inplace2 (\<lambda>a b. a / b) d (ciq_diff_divisor iqr)) (\<lambda>q.
          Inr (mean_item (map_tensor abs q))))))))"

definition record_solve_stats ::
  "lazy_tensor \<Rightarrow> real tensor \<Rightarrow> real tensor \<Rightarrow> real tensor \<Rightarrow> real tensor option \<Rightarrow> ciq_stats
     \<Rightarrow> error + ciq_stats" where
  "record_solve_stats lt rhs no_shift_solves inverse_solves weights st =
     (if on st then
        bind_err (compute_minres_residual lt no_shift_solves rhs) (\<lambda>res.
        bind_err (inv_quad_res no_shift_solves rhs) (\<lambda>iqr.
        bind_err (compute_ciq_diff inverse_solves weights iqr) (\<lambda>diff.
        Inr (st\<lparr>minres_residual := res, ciq_diff := diff\<rparr>))))
      else Inr st)"

subsection \<open>\<^verbatim>\<open>contour_integral_quad\<close>\<close>

text \<open>
  \<^verbatim>\<open>
  def contour_integral_quad(lazy_tensor, rhs, inverse=False, weights=None, shifts=None,
                            max_lanczos_iter=7, num_contour_quadrature=7):
      output_batch_shape = _mul_broadcast_shape(lazy_tensor.batch_shape, rhs.shape[:-2])
      if shifts is None:
          ...
      solves = minres(lambda v: lazy_tensor._matmul(v), rhs, value=-1, shifts=shifts)
      no_shift_solves = solves[0]
      solves = solves[1:]
      inverse_solves = solves
      if not inverse:
          solves = lazy_tensor._matmul(solves)
      if settings.record_ciq_stats.on():
          ...
      return solves, weights, no_shift_solves, shifts
  \<close>
  \<open>prepare_shifts\<close> is the statement \<^verbatim>\<open>if shifts is None:\<close>, with the values of
  \<^verbatim>\<open>weights\<close> and \<^verbatim>\<open>shifts\<close> after it; \<open>solve_and_assemble\<close> is the rest of the body.
  The argument \<^verbatim>\<open>inverse\<close> is written \<open>inverse_flag\<close>.
\<close>

type_synonym ciq_result = "real tensor \<times> real tensor option \<times> real tensor \<times> real tensor"

definition prepare_shifts ::
  "env \<Rightarrow> lazy_tensor \<Rightarrow> real tensor \<Rightarrow> real tensor option \<Rightarrow> real tensor option \<Rightarrow> int \<Rightarrow> int
     \<Rightarrow> nat list \<Rightarrow> ciq_stats \<Rightarrow> error + (real tensor option \<times> real tensor \<times> ciq_stats)" where
  "prepare_shifts env lt rhs weights shifts max_lanczos_iter num_contour_quadrature
       output_batch_shape st =
     (case shifts of
        None \<Rightarrow>
          bind_err (derive_shifts_weights env lt rhs max_lanczos_iter num_contour_quadrature
                      output_batch_shape st) (\<lambda>(weights', shifts', st').
          Inr (Some weights', shifts', st'))
      | Some s \<Rightarrow> Inr (weights, s, st))"

definition solve_and_assemble ::
  "env \<Rightarrow> lazy_tensor \<Rightarrow> real tensor \<Rightarrow> bool \<Rightarrow> real tensor option \<Rightarrow> real tensor \<Rightarrow> ciq_stats
     \<Rightarrow> error + (ciq_result \<times> ciq_stats)" where
  "solve_and_assemble env lt rhs inverse_flag weights shifts st =
     (let solves = minres env (\<lambda>v. matmul lt v) rhs (- 1) shifts
      in bind_err (index0 solves) (\<lambda>no_shift_solves.
         bind_err (slice_from1 solves) (\<lambda>solves.
         let inverse_solves = solves;
             solves = (if \<not> inverse_flag then matmul lt solves else solves)
         in bind_err (record_solve_stats lt rhs no_shift_solves inverse_solves weights st) (\<lambda>st'.
            Inr ((solves, weights, no_shift_solves, shifts), st')))))"

definition contour_integral_quad ::
  "env \<Rightarrow> lazy_tensor \<Rightarrow> real tensor \<Rightarrow> bool \<Rightarrow> real tensor option \<Rightarrow> real tensor option \<Rightarrow> int \<Rightarrow> int
     \<Rightarrow> ciq_stats \<Rightarrow> error + (ciq_result \<times> ciq_stats)" where
  "contour_integral_quad env lt rhs inverse_flag weights shifts max_lanczos_iter num_contour_quadrature st =
     bind_err (mul_broadcast_shape (batch_shape lt) (butlast (butlast (shape rhs)))) (\<lambda>output_batch_shape.
     bind_err (prepare_shifts env lt rhs weights shifts max_lanczos_iter num_contour_quadrature
                 output_batch_shape st) (\<lambda>(weights', shifts', st').
     solve_and_assemble env lt rhs inverse_flag weights' shifts' st'))"

section \<open>The quadrature formulas in closed form\<close>

text \<open>
  The quantities that the shifts and weights of one batch element are said to equal, with
  \<open>Kp = ellipk (1 - k2)\<close>.  The contour points are \<open>t\<^sub>j = \<i> (j - 1/2) Kp / N\<close> for
  \<open>j = 1, \<dots>, N\<close> (here counted from 0), and the Jacobi functions are taken at their
  imaginary parts with parameter \<open>1 - k2\<close>.  The transformed functions are
  \<open>cn' = 1 / cn\<close>, \<open>dn' = dn \<cdot> cn'\<close> and \<open>sn' = \<i> \<cdot> sn \<cdot> cn'\<close>.  A shift is the real
  part of \<open>(sqrt min_eig \<cdot> sn')\<^sup>2\<close>; a weight is \<open>cn' \<cdot> dn'\<close> times the constant
  \<open>-2 Kp sqrt min_eig / (\<pi> N)\<close>.
\<close>

definition contour_point :: "int \<Rightarrow> real \<Rightarrow> nat \<Rightarrow> real" where
  "contour_point N Kp j = (real j + 1 - 1 / 2) * Kp / real_of_int N"

definition transformed_sn :: "real \<times> real \<times> real \<times> real \<Rightarrow> complex" where
  "transformed_sn e = (case e of (sn, cn, dn, ph) \<Rightarrow> \<i> * complex_of_real sn * complex_of_real (1 / cn))"

definition transformed_cn :: "real \<times> real \<times> real \<times> real \<Rightarrow> real" where
  "transformed_cn e = (case e of (sn, cn, dn, ph) \<Rightarrow> 1 / cn)"

definition transformed_dn :: "real \<times> real \<times> real \<times> real \<Rightarrow> real" where
  "transformed_dn e = (case e of (sn, cn, dn, ph) \<Rightarrow> dn * (1 / cn))"

definition shift_formula :: "env \<Rightarrow> int \<Rightarrow> real \<Rightarrow> real \<Rightarrow> nat \<Rightarrow> real" where
  "shift_formula env N k2 min_eig j =
     (let Kp = ellipk env (1 - k2);
          e = ellipj env (contour_point N Kp j) (1 - k2)
      in Re ((complex_of_real (sqrt min_eig) * transformed_sn e) ^ 2))"

definition weight_formula :: "env \<Rightarrow> int \<Rightarrow> real \<Rightarrow> real \<Rightarrow> nat \<Rightarrow> real" where
  "weight_formula env N k2 min_eig j =
     (let Kp = ellipk env (1 - k2);
          e = ellipj env (contour_point N Kp j) (1 - k2)
      in transformed_cn e * transformed_dn e * (- 2 * Kp * sqrt min_eig / (pi * real_of_int N)))"

section \<open>Two operators to run the code on\<close>

text \<open>
  The operator \<open>K = 2 I\<close> on vectors of length 2, with its surroundings computed by hand.
  Lanczos stops after one step with the tridiagonal matrix \<open>(2)\<close>, whose eigenvalue is its
  entry, so \<open>k2 = 1\<close>; the elliptic functions are needed at parameter \<open>1 - k2 = 0\<close> only,
  where \<open>ellipk = \<pi>/2\<close> and \<open>ellipj u = (sin u, cos u, 1, u)\<close>.  The solver is exact:
  for every shift \<open>s\<close> of a batch element it returns \<open>value \<cdot> b / (2 - s)\<close>.
\<close>

definition example_rhs :: "real tensor" where
  "example_rhs = \<lparr>shape = [2, 1], data = [1, 1]\<rparr>"

definition batched_rhs :: "real tensor" where
  "batched_rhs = \<lparr>shape = [2, 2, 1], data = [1, 1, 1, 1]\<rparr>"

definition example_lt :: lazy_tensor where
  "example_lt = \<lparr>batch_shape = [], matrix_shape = [2, 2],
                 matmul = map_tensor (\<lambda>x. 2 * x),
                 dunder_matmul = map_tensor (\<lambda>x. 2 * x),
                 diag = \<lparr>shape = [2], data = [2, 2]\<rparr>\<rparr>"

definition example_minres ::
  "(real tensor \<Rightarrow> real tensor) \<Rightarrow> real tensor \<Rightarrow> real \<Rightarrow> real tensor \<Rightarrow> real tensor" where
  "example_minres mm rhs value shifts =
     (let m = hd (shape shifts);
          per_shift = prod_list (tl (shape shifts));
          per_batch = length (data rhs) div per_shift
      in \<lparr>shape = m # shape rhs,
          data = concat (map (\<lambda>row. map (\<lambda>p. value * (data rhs ! p) / (2 - row ! (p div per_batch)))
                                          [0..<length (data rhs)])
                             (chunks m per_shift (data shifts)))\<rparr>)"

definition example_env :: env where
  "example_env = \<lparr>
     lanczos_tridiag = (\<lambda>mm iv ms bs it.
        (map_tensor (\<lambda>x. x / sqrt 2) iv, \<lparr>shape = bs @ [1, 1], data = [2]\<rparr>)),
     symeig = (\<lambda>m. Some \<lparr>shape = butlast (shape m), data = data m\<rparr>),
     ellipk = (\<lambda>m. pi / 2),
     ellipj = (\<lambda>u m. (sin u, cos u, 1, u)),
     minres = example_minres\<rparr>"

definition stats_off :: ciq_stats where
  "stats_off = \<lparr>on = False, condition_number = 0, minres_residual = 0, ciq_diff = 0\<rparr>"

definition stats_on :: ciq_stats where
  "stats_on = \<lparr>on = True, condition_number = 0, minres_residual = 0, ciq_diff = 0\<rparr>"

text \<open>
  The singular operator \<open>K = diag (0, 1)\<close>.  From the start vector \<open>(1, 1)\<close> Lanczos
  builds the tridiagonal matrix with all four entries \<open>1/2\<close>, whose eigenvalues are 0
  and 1.
\<close>

definition diag_matmul :: "real list \<Rightarrow> real tensor \<Rightarrow> real tensor" where
  "diag_matmul ds v =
     \<lparr>shape = shape v,
      data = map (\<lambda>i. ds ! ((i div last (shape v)) mod length ds) * (data v ! i))
                 [0..<length (data v)]\<rparr>"

definition singular_lt :: lazy_tensor where
  "singular_lt = \<lparr>batch_shape = [], matrix_shape = [2, 2],
                  matmul = diag_matmul [0, 1],
                  dunder_matmul = diag_matmul [0, 1],
                  diag = \<lparr>shape = [2], data = [0, 1]\<rparr>\<rparr>"

definition singular_env :: env where
  "singular_env = example_env\<lparr>
     lanczos_tridiag := (\<lambda>mm iv ms bs it.
        (\<lparr>shape = bs @ [2, 2], data = [1 / sqrt 2, - 1 / sqrt 2, 1 / sqrt 2, 1 / sqrt 2]\<rparr>,
         \<lparr>shape = bs @ [2, 2], data = [1 / 2, 1 / 2, 1 / 2, 1 / 2]\<rparr>)),
     symeig := (\<lambda>m. Some \<lparr>shape = butlast (shape m), data = [0, 1]\<rparr>)\<rparr>"

section \<open>Facts about blocks and transposition\<close>

lemma chunks_Suc: "chunks (Suc m) n xs = take n xs # chunks m n (drop n xs)"
proof -
  have "[0..<Suc m] = 0 # map Suc [0..<m]"
    by (simp add: upt_conv_Cons map_Suc_upt del: upt_Suc)
  then show ?thesis
    by (simp add: chunks_def comp_def add.commute del: upt_Suc)
qed

lemma chunks_0: "chunks 0 n xs = []"
  by (simp add: chunks_def)

lemma concat_chunks: "length xs = m * n \<Longrightarrow> concat (chunks m n xs) = xs"
proof (induction m arbitrary: xs)
  case 0
  then show ?case by (simp add: chunks_0)
next
  case (Suc m)
  then have "length (drop n xs) = m * n" by simp
  then have "concat (chunks m n (drop n xs)) = drop n xs" by (rule Suc.IH)
  then show ?case by (simp add: chunks_Suc)
qed

lemma chunks_concat:
  "\<forall>ys \<in> set yss. length ys = n \<Longrightarrow> chunks (length yss) n (concat yss) = yss"
  by (induction yss) (simp_all add: chunks_0 chunks_Suc)

lemma length_chunks: "length (chunks m n xs) = m"
  by (simp add: chunks_def)

lemma chunks_block_length:
  assumes "length xs = m * n" and "ys \<in> set (chunks m n xs)"
  shows "length ys = n"
proof -
  from assms(2) obtain i where i: "i < m" and ys: "ys = take n (drop (i * n) xs)"
    by (auto simp: chunks_def)
  from i have "Suc i \<le> m" by simp
  then have "Suc i * n \<le> m * n" by (rule mult_le_mono1)
  then have "n \<le> length xs - i * n" using assms(1) by simp
  then show ?thesis by (simp add: ys)
qed

lemma length_transpose_mat: "length (transpose_mat r c xs) = r * c"
  by (simp add: transpose_mat_def)

lemma swap_index_bound:
  fixes k r c :: nat
  assumes "k < r * c"
  shows "k mod c * r + k div c < c * r"
proof -
  have c: "0 < c" using assms by (cases c) simp_all
  have "k div c < r" using assms c by (simp add: less_mult_imp_div_less mult.commute)
  then have "k div c + 1 \<le> r" by simp
  moreover have "k mod c + 1 \<le> c" using c by (simp add: Suc_leI)
  then have "(k mod c + 1) * r \<le> c * r" by (rule mult_le_mono1)
  ultimately show ?thesis by (simp add: algebra_simps)
qed

lemma swap_index_back:
  fixes k r c :: nat
  assumes "k < r * c"
  shows "((k mod c * r + k div c) mod r) * c + (k mod c * r + k div c) div r = k"
proof -
  have c: "0 < c" using assms by (cases c) simp_all
  have d: "k div c < r" using assms c by (simp add: less_mult_imp_div_less mult.commute)
  then have r: "0 < r" by simp
  have m: "(k mod c * r + k div c) mod r = k div c" using d by simp
  have q: "(k mod c * r + k div c) div r = k mod c" using d r by simp
  show ?thesis unfolding m q by simp
qed

lemma transpose_mat_twice:
  assumes "length xs = r * c"
  shows "transpose_mat c r (transpose_mat r c xs) = xs"
proof (rule nth_equalityI)
  show "length (transpose_mat c r (transpose_mat r c xs)) = length xs"
    using assms by (simp add: transpose_mat_def mult.commute)
next
  fix k assume "k < length (transpose_mat c r (transpose_mat r c xs))"
  then have k: "k < r * c" by (simp add: transpose_mat_def mult.commute)
  then have k': "k < c * r" by (simp add: mult.commute)
  have "transpose_mat c r (transpose_mat r c xs) ! k
      = transpose_mat r c xs ! (k mod c * r + k div c)"
    using k' by (simp add: transpose_mat_def)
  also have "\<dots> = xs ! (((k mod c * r + k div c) mod r) * c + (k mod c * r + k div c) div r)"
    using swap_index_bound [OF k] by (simp add: transpose_mat_def mult.commute)
  also have "\<dots> = xs ! k" by (simp only: swap_index_back [OF k])
  finally show "transpose_mat c r (transpose_mat r c xs) ! k = xs ! k" .
qed

lemma transpose_blocks_twice:
  assumes "length xs = b * (r * c)"
  shows "concat (map (transpose_mat c r)
           (chunks b (c * r) (concat (map (transpose_mat r c) (chunks b (r * c) xs))))) = xs"
proof -
  let ?bs = "chunks b (r * c) xs"
  have len: "\<forall>ys \<in> set (map (transpose_mat r c) ?bs). length ys = c * r"
    by (auto simp: length_transpose_mat mult.commute)
  have "chunks b (c * r) (concat (map (transpose_mat r c) ?bs)) = map (transpose_mat r c) ?bs"
    using chunks_concat [OF len] by (simp add: length_chunks)
  moreover have "map (transpose_mat c r) (map (transpose_mat r c) ?bs) = ?bs"
  proof -
    have "\<forall>ys \<in> set ?bs. transpose_mat c r (transpose_mat r c ys) = ys"
      using chunks_block_length [OF assms] transpose_mat_twice by blast
    then show ?thesis by (simp add: map_idI)
  qed
  ultimately show ?thesis using concat_chunks [OF assms] by simp
qed

lemma transpose_last2_twice:
  assumes "2 \<le> length (shape t)" and "wf_tensor t"
  shows "\<exists>u. transpose_last2 t = Inr u \<and> transpose_last2 u = Inr t"
proof -
  define pre where "pre = butlast (butlast (shape t))"
  define r where "r = last (butlast (shape t))"
  define c where "c = last (shape t)"
  have bl: "butlast (shape t) \<noteq> []" and ne: "shape t \<noteq> []"
    using assms(1) by (auto simp: length_butlast dest!: arg_cong [where f = length])
  have "shape t = butlast (shape t) @ [c]"
    using append_butlast_last_id [OF ne] by (simp add: c_def)
  moreover have "butlast (shape t) = pre @ [r]"
    using append_butlast_last_id [OF bl] by (simp add: pre_def r_def)
  ultimately have sh: "shape t = pre @ [r, c]" by simp
  define u :: "'a tensor" where
    "u = \<lparr>shape = pre @ [c, r],
          data = concat (map (transpose_mat r c) (chunks (prod_list pre) (r * c) (data t)))\<rparr>"
  have tu: "transpose_last2 t = Inr u"
    using assms(1) by (simp add: transpose_last2_def Let_def u_def pre_def r_def c_def)
  have len: "length (data t) = prod_list pre * (r * c)"
    using assms(2) by (simp add: wf_tensor_def sh)
  have "transpose_last2 u = Inr \<lparr>shape = pre @ [r, c],
          data = concat (map (transpose_mat c r) (chunks (prod_list pre) (c * r) (data u)))\<rparr>"
    by (simp add: transpose_last2_def Let_def u_def butlast_append)
  also have "\<dots> = Inr \<lparr>shape = shape t, data = data t\<rparr>"
    using transpose_blocks_twice [OF len] by (simp add: u_def sh)
  finally have "transpose_last2 u = Inr t" by simp
  with tu show ?thesis by blast
qed

section \<open>Facts about the tensor operations\<close>

lemma bind_err_Inr [simp]: "bind_err (Inr x) f = f x"
  by (simp add: bind_err_def)

lemma bind_err_Inl [simp]: "bind_err (Inl e) f = Inl e"
  by (simp add: bind_err_def)

lemma bind_err_eq_Inr:
  "bind_err m f = Inr y \<longleftrightarrow> (\<exists>x. m = Inr x \<and> f x = Inr y)"
  by (cases m) simp_all

lemma length_write_col: "length (write_col C i r vs xs) = length xs"
  by (induction vs arbitrary: r xs) simp_all

lemma cell_index:
  fixes k C i r :: nat
  assumes "i < C"
  shows "k = r * C + i \<longleftrightarrow> k mod C = i \<and> k div C = r"
  using assms by auto

lemma nth_write_col:
  assumes "i < C" and "k < length xs"
  shows "write_col C i r vs xs ! k =
         (if k mod C = i \<and> r \<le> k div C \<and> k div C < r + length vs
          then vs ! (k div C - r) else xs ! k)"
  using assms(2)
proof (induction vs arbitrary: r xs)
  case Nil
  then show ?case by auto
next
  case (Cons v vs)
  have "write_col C i r (v # vs) xs ! k = write_col C i (Suc r) vs (xs[r * C + i := v]) ! k"
    by simp
  also have "\<dots> = (if k mod C = i \<and> Suc r \<le> k div C \<and> k div C < Suc r + length vs
          then vs ! (k div C - Suc r) else xs[r * C + i := v] ! k)"
    using Cons.prems by (intro Cons.IH) simp
  also have "xs[r * C + i := v] ! k = (if k mod C = i \<and> k div C = r then v else xs ! k)"
  proof -
    have "xs[r * C + i := v] ! k = (if k = r * C + i then v else xs ! k)"
      using Cons.prems by (cases "r * C + i < length xs") (auto simp: nth_list_update)
    then show ?thesis by (simp only: cell_index [OF assms(1)])
  qed
  finally show ?case
    by (auto simp: nth_Cons' Suc_diff_Suc less_Suc_eq_le)
qed

lemma length_concat_same:
  "\<forall>ys \<in> set yss. length ys = n \<Longrightarrow> length (concat yss) = length yss * n"
  by (induction yss) simp_all

lemma set_chunks_subset: "ys \<in> set (chunks m n xs) \<Longrightarrow> set ys \<subseteq> set xs"
  by (auto simp: chunks_def dest: in_set_takeD in_set_dropD)

lemma length_expand_data:
  assumes "list_all2 (\<lambda>s d. s = d \<or> s = 1) src target" and "length xs = prod_list src"
  shows "length (expand_data src target xs) = prod_list target"
  using assms
proof (induction src target xs rule: expand_data.induct)
  case (1 s ss d ds xs)
  from "1.prems" have sd: "s = d \<or> s = 1" and rest: "list_all2 (\<lambda>s d. s = d \<or> s = 1) ss ds"
    and len: "length xs = s * prod_list ss" by simp_all
  show ?case
  proof (cases "s = d")
    case True
    have "\<forall>ys \<in> set (map (expand_data ss ds) (chunks s (prod_list ss) xs)). length ys = prod_list ds"
    proof
      fix ys assume "ys \<in> set (map (expand_data ss ds) (chunks s (prod_list ss) xs))"
      then obtain c where c: "c \<in> set (chunks s (prod_list ss) xs)" and ys: "ys = expand_data ss ds c"
        by auto
      have "length c = prod_list ss" using chunks_block_length [OF len c] .
      with "1.IH"(1) [OF True c rest] show "length ys = prod_list ds" by (simp add: ys)
    qed
    from length_concat_same [OF this] show ?thesis
      using True by (simp add: length_chunks)
  next
    case False
    with sd have s1: "s = 1" by simp
    with len have "length xs = prod_list ss" by simp
    with "1.IH"(2) [OF False rest] have "length (expand_data ss ds xs) = prod_list ds" .
    then have "\<forall>ys \<in> set (replicate d (expand_data ss ds xs)). length ys = prod_list ds"
      by simp
    from length_concat_same [OF this] show ?thesis using False by simp
  qed
qed auto

lemma set_expand_data: "set (expand_data src target xs) \<subseteq> set xs"
proof (induction src target xs rule: expand_data.induct)
  case (1 s ss d ds xs)
  show ?case
  proof (cases "s = d")
    case True
    then show ?thesis
      using "1.IH"(1) [OF True] set_chunks_subset [of _ s "prod_list ss" xs] by fastforce
  next
    case False
    then show ?thesis using "1.IH"(2) [OF False] by (auto split: if_splits)
  qed
qed simp_all

lemma expand_data_replicate:
  assumes "list_all2 (\<lambda>s d. s = d \<or> s = 1) src target" and "length xs = prod_list src"
    and "set xs \<subseteq> {a}"
  shows "expand_data src target xs = replicate (prod_list target) a"
proof -
  have "\<forall>y \<in> set (expand_data src target xs). y = a"
    using set_expand_data [of src target xs] assms(3) by auto
  then have "replicate (length (expand_data src target xs)) a = expand_data src target xs"
    by (rule replicate_length_same)
  then show ?thesis using length_expand_data [OF assms(1,2)] by simp
qed

lemma prod_list_pad_shape[simp]: "prod_list (pad_shape n sh) = prod_list sh"
  by (simp add: pad_shape_def)


lemma expand_eq_Inr:
  "expand t target = Inr u \<longleftrightarrow>
     length (shape t) \<le> length target \<and>
     list_all2 (\<lambda>s d. s = d \<or> s = 1) (pad_shape (length target) (shape t)) target \<and>
     u = \<lparr>shape = target, data = expand_data (pad_shape (length target) (shape t)) target (data t)\<rparr>"
  by (auto simp: expand_def Let_def)

lemma map_err_Inr_D:
  "map_err f xs = Inr ys \<Longrightarrow> list_all2 (\<lambda>x y. f x = Inr y) xs ys"
  by (induction xs arbitrary: ys) (auto split: sum.splits)

lemma map_err_Inr_I:
  "list_all2 (\<lambda>x y. f x = Inr y) xs ys \<Longrightarrow> map_err f xs = Inr ys"
  by (induction xs ys rule: list_all2_induct) simp_all

lemma map_err_map:
  "\<forall>x \<in> set xs. f x = Inr (g x) \<Longrightarrow> map_err f xs = Inr (map g xs)"
  by (rule map_err_Inr_I) (simp add: list_all2_conv_all_nth)

lemma stack0_same_shape:
  assumes "us \<noteq> []" and "\<forall>u \<in> set us. shape u = sh"
  shows "stack0 us = Inr \<lparr>shape = length us # sh, data = concat (map data us)\<rparr>"
proof -
  from assms(1) obtain u rest where us: "us = u # rest" by (cases us) auto
  with assms(2) have "shape u = sh" and "list_all (\<lambda>v. shape v = shape u) rest"
    by (simp_all add: list_all_iff)
  then show ?thesis by (simp add: stack0_def us)
qed

lemma unbind0_Cons:
  "shape t = d # ds \<Longrightarrow>
   unbind0 t = Inr (map (\<lambda>xs. \<lparr>shape = ds, data = xs\<rparr>) (chunks d (prod_list ds) (data t)))"
  by (simp add: unbind0_def)

text \<open>Expanding every slice of the leading dimension, when the slices can be broadcast.\<close>

lemma expand_each_ok:
  assumes sh: "shape t = Suc n # sh"
    and len: "length sh \<le> length target"
    and ok: "list_all2 (\<lambda>s d. s = d \<or> s = 1) (pad_shape (length target) sh) target"
  shows "expand_each t target =
         Inr \<lparr>shape = Suc n # target,
              data = concat (map (expand_data (pad_shape (length target) sh) target)
                              (chunks (Suc n) (prod_list sh) (data t)))\<rparr>"
proof -
  let ?mk = "\<lambda>xs. \<lparr>shape = sh, data = xs\<rparr>"
  let ?ts = "map ?mk (chunks (Suc n) (prod_list sh) (data t))"
  let ?g = "\<lambda>u :: real tensor. \<lparr>shape = target,
               data = expand_data (pad_shape (length target) sh) target (data u)\<rparr>"
  have "\<forall>u \<in> set ?ts. expand u target = Inr (?g u)"
    using len ok by (auto simp: expand_eq_Inr)
  then have m: "map_err (\<lambda>u. expand u target) ?ts = Inr (map ?g ?ts)"
    by (rule map_err_map)
  have ne: "map ?g ?ts \<noteq> []" by (simp add: chunks_def del: upt_Suc)
  have "\<forall>u \<in> set (map ?g ?ts). shape u = target" by auto
  from stack0_same_shape [OF ne this]
  have "stack0 (map ?g ?ts) = Inr \<lparr>shape = Suc n # target, data = concat (map data (map ?g ?ts))\<rparr>"
    by (simp add: length_chunks)
  then show ?thesis
    by (simp add: expand_each_def unbind0_Cons [OF sh] m comp_def)
qed

lemma expand_each_eq_Inr:
  assumes "expand_each t target = Inr s" and sh: "shape t = Suc n # sh"
  shows "length sh \<le> length target \<and>
         list_all2 (\<lambda>s d. s = d \<or> s = 1) (pad_shape (length target) sh) target"
proof -
  let ?mk = "\<lambda>xs. \<lparr>shape = sh, data = xs\<rparr>"
  let ?ts = "map ?mk (chunks (Suc n) (prod_list sh) (data t))"
  from assms(1) obtain us where "map_err (\<lambda>u. expand u target) ?ts = Inr us"
    by (auto simp: expand_each_def unbind0_Cons [OF sh] bind_err_eq_Inr)
  then have "list_all2 (\<lambda>x y. expand x target = Inr y) ?ts us"
    by (rule map_err_Inr_D)
  moreover have "?ts \<noteq> []" by (simp add: chunks_def del: upt_Suc)
  ultimately obtain u where "expand (hd ?ts) target = Inr u"
    by (cases ?ts; cases us) auto
  moreover have "shape (hd ?ts) = sh" by (simp add: chunks_Suc)
  ultimately show ?thesis by (simp add: expand_eq_Inr)
qed

section \<open>Facts about the contour tables\<close>

lemma length_quadrature_element:
  "length (fst (quadrature_element env N a b)) = nat N"
  "length (snd (quadrature_element env N a b)) = nat N"
  by (simp_all add: quadrature_element_def Let_def)

lemma copy_col_ok:
  assumes "shape dst = [R, C]" and "i < C" and "length src = R - r0"
  shows "copy_col r0 i src dst = Inr \<lparr>shape = [R, C], data = write_col C i r0 src (data dst)\<rparr>"
  using assms by (simp add: copy_col_def)

lemma contour_loop_tables:
  assumes "shape fs = [Suc n, C]" and "shape fw = [n, C]"
    and "length (data fs) = Suc n * C" and "length (data fw) = n * C"
    and "i + length elems \<le> C" and "n = nat N"
  shows "\<exists>fs' fw'. contour_loop env N i elems fs fw = Inr (fs', fw') \<and>
           shape fs' = [Suc n, C] \<and> shape fw' = [n, C] \<and>
           length (data fs') = Suc n * C \<and> length (data fw') = n * C \<and>
           (\<forall>k < Suc n * C. data fs' ! k =
              (if 1 \<le> k div C \<and> i \<le> k mod C \<and> k mod C < i + length elems
               then fst (quadrature_element env N (fst (elems ! (k mod C - i)))
                           (snd (elems ! (k mod C - i)))) ! (k div C - 1)
               else data fs ! k)) \<and>
           (\<forall>k < n * C. data fw' ! k =
              (if i \<le> k mod C \<and> k mod C < i + length elems
               then snd (quadrature_element env N (fst (elems ! (k mod C - i)))
                           (snd (elems ! (k mod C - i)))) ! (k div C)
               else data fw ! k))"
  using assms(1-5)
proof (induction elems arbitrary: i fs fw)
  case Nil
  then show ?case by simp
next
  case (Cons e rest)
  obtain a b where e: "e = (a, b)" by (cases e)
  let ?q = "quadrature_element env N a b"
  have i: "i < C" using Cons.prems(5) by simp
  define fs1 where "fs1 = \<lparr>shape = [Suc n, C], data = write_col C i 1 (fst ?q) (data fs)\<rparr>"
  define fw1 where "fw1 = \<lparr>shape = [n, C], data = write_col C i 0 (snd ?q) (data fw)\<rparr>"
  have c1: "copy_col 1 i (fst ?q) fs = Inr fs1"
    unfolding fs1_def using Cons.prems(1) i
    by (intro copy_col_ok) (simp_all add: length_quadrature_element assms(6))
  have c2: "copy_col 0 i (snd ?q) fw = Inr fw1"
    unfolding fw1_def using Cons.prems(2) i
    by (intro copy_col_ok) (simp_all add: length_quadrature_element assms(6))
  have step: "contour_loop env N i (e # rest) fs fw = contour_loop env N (Suc i) rest fs1 fw1"
    using c1 c2 by (simp add: e)
  have "\<exists>fs' fw'. contour_loop env N (Suc i) rest fs1 fw1 = Inr (fs', fw') \<and>
           shape fs' = [Suc n, C] \<and> shape fw' = [n, C] \<and>
           length (data fs') = Suc n * C \<and> length (data fw') = n * C \<and>
           (\<forall>k < Suc n * C. data fs' ! k =
              (if 1 \<le> k div C \<and> Suc i \<le> k mod C \<and> k mod C < Suc i + length rest
               then fst (quadrature_element env N (fst (rest ! (k mod C - Suc i)))
                           (snd (rest ! (k mod C - Suc i)))) ! (k div C - 1)
               else data fs1 ! k)) \<and>
           (\<forall>k < n * C. data fw' ! k =
              (if Suc i \<le> k mod C \<and> k mod C < Suc i + length rest
               then snd (quadrature_element env N (fst (rest ! (k mod C - Suc i)))
                           (snd (rest ! (k mod C - Suc i)))) ! (k div C)
               else data fw1 ! k))"
    using Cons.prems
    by (intro Cons.IH) (simp_all add: fs1_def fw1_def length_write_col)
  then obtain fs' fw' where
    r: "contour_loop env N (Suc i) rest fs1 fw1 = Inr (fs', fw')"
    and sh: "shape fs' = [Suc n, C]" "shape fw' = [n, C]"
    and ln: "length (data fs') = Suc n * C" "length (data fw') = n * C"
    and ds: "\<And>k. k < Suc n * C \<Longrightarrow> data fs' ! k =
              (if 1 \<le> k div C \<and> Suc i \<le> k mod C \<and> k mod C < Suc i + length rest
               then fst (quadrature_element env N (fst (rest ! (k mod C - Suc i)))
                           (snd (rest ! (k mod C - Suc i)))) ! (k div C - 1)
               else data fs1 ! k)"
    and dw: "\<And>k. k < n * C \<Longrightarrow> data fw' ! k =
              (if Suc i \<le> k mod C \<and> k mod C < Suc i + length rest
               then snd (quadrature_element env N (fst (rest ! (k mod C - Suc i)))
                           (snd (rest ! (k mod C - Suc i)))) ! (k div C)
               else data fw1 ! k)"
    by blast
  have d1: "data fs1 ! k =
      (if k mod C = i \<and> 1 \<le> k div C then fst ?q ! (k div C - 1) else data fs ! k)"
    if "k < Suc n * C" for k
  proof -
    have "k div C < Suc n" using that i by (simp add: less_mult_imp_div_less)
    then show ?thesis
      using that i Cons.prems(3)
      by (simp add: fs1_def nth_write_col length_quadrature_element assms(6))
  qed
  have d2: "data fw1 ! k = (if k mod C = i then snd ?q ! (k div C) else data fw ! k)"
    if "k < n * C" for k
  proof -
    have "k div C < n" using that i by (simp add: less_mult_imp_div_less)
    then show ?thesis
      using that i Cons.prems(4)
      by (simp add: fw1_def nth_write_col length_quadrature_element assms(6))
  qed
  have g1: "data fs' ! k =
              (if 1 \<le> k div C \<and> i \<le> k mod C \<and> k mod C < i + length (e # rest)
               then fst (quadrature_element env N (fst ((e # rest) ! (k mod C - i)))
                           (snd ((e # rest) ! (k mod C - i)))) ! (k div C - 1)
               else data fs ! k)" if "k < Suc n * C" for k
    unfolding ds [OF that] d1 [OF that]
    by (cases "k mod C = i") (auto simp: e nth_Cons' Suc_diff_Suc)
  have g2: "data fw' ! k =
              (if i \<le> k mod C \<and> k mod C < i + length (e # rest)
               then snd (quadrature_element env N (fst ((e # rest) ! (k mod C - i)))
                           (snd ((e # rest) ! (k mod C - i)))) ! (k div C)
               else data fw ! k)" if "k < n * C" for k
    unfolding dw [OF that] d2 [OF that]
    by (cases "k mod C = i") (auto simp: e nth_Cons' Suc_diff_Suc)
  show ?case
    unfolding step using r sh ln g1 g2 by simp
qed

lemma take_write_col: "0 < r \<Longrightarrow> take C (write_col C i r vs xs) = take C xs"
proof (induction vs arbitrary: r xs)
  case Nil
  then show ?case by simp
next
  case (Cons v vs)
  then have "C \<le> r * C + i" by (cases r) simp_all
  then have "take C (xs[r * C + i := v]) = take C xs" by (rule take_update_cancel)
  with Cons.IH [of "Suc r" "xs[r * C + i := v]"] show ?case by simp
qed

lemma copy_col_Inr:
  assumes "copy_col r0 i src dst = Inr dst'"
  shows "\<exists>R C. shape dst = [R, C] \<and> i < C \<and> length src = R - r0 \<and>
           dst' = \<lparr>shape = [R, C], data = write_col C i r0 src (data dst)\<rparr>"
  using assms
  by (auto simp: copy_col_def split: list.splits if_splits)

lemma contour_loop_row0:
  assumes "contour_loop env N i elems fs fw = Inr (fs', fw')" and "shape fs = [R, C]"
  shows "shape fs' = [R, C] \<and> length (data fs') = length (data fs) \<and>
         take C (data fs') = take C (data fs) \<and>
         shape fw' = shape fw \<and> length (data fw') = length (data fw)"
  using assms
proof (induction elems arbitrary: i fs fw)
  case Nil
  then show ?case by simp
next
  case (Cons e rest)
  obtain a b where e: "e = (a, b)" by (cases e)
  let ?q = "quadrature_element env N a b"
  from Cons.prems(1) obtain fs1 fw1 where
    c1: "copy_col 1 i (fst ?q) fs = Inr fs1" and c2: "copy_col 0 i (snd ?q) fw = Inr fw1"
    and r: "contour_loop env N (Suc i) rest fs1 fw1 = Inr (fs', fw')"
    by (auto simp: e split: sum.splits)
  from copy_col_Inr [OF c1] Cons.prems(2)
  have fs1: "fs1 = \<lparr>shape = [R, C], data = write_col C i 1 (fst ?q) (data fs)\<rparr>" by auto
  from copy_col_Inr [OF c2] obtain R' C'
    where fw1: "shape fw = [R', C']" "fw1 = \<lparr>shape = [R', C'], data = write_col C' i 0 (snd ?q) (data fw)\<rparr>"
    by auto
  have "shape fs1 = [R, C]" by (simp add: fs1)
  from Cons.IH [OF r this] show ?case
    by (simp add: fs1 fw1 length_write_col take_write_col)
qed

lemma contour_tables_Inr:
  assumes "contour_tables env N k2 min_eig = Inr (fs, fw)"
  shows "0 \<le> N \<and> shape fs = [Suc (nat N), numel k2] \<and> shape fw = [nat N, numel k2] \<and>
         length (data fs) = Suc (nat N) * numel k2 \<and> length (data fw) = nat N * numel k2 \<and>
         take (numel k2) (data fs) = replicate (numel k2) 0"
proof -
  from assms have N: "0 \<le> N" by (auto simp: contour_tables_def split: if_splits)
  then have n: "nat (N + 1) = Suc (nat N)" by simp
  from assms N have loop: "contour_loop env N 0 (zip (data k2) (data min_eig))
      (zeros [Suc (nat N), numel k2]) (zeros [nat N, numel k2]) = Inr (fs, fw)"
    by (simp add: contour_tables_def n)
  have "shape (zeros [Suc (nat N), numel k2]) = [Suc (nat N), numel k2]" by (simp add: zeros_def)
  from contour_loop_row0 [OF loop this] N show ?thesis
    by (simp add: zeros_def min_def)
qed

lemma view_Inr: "prod_list sh = numel t \<Longrightarrow> view t sh = Inr \<lparr>shape = sh, data = data t\<rparr>"
  by (simp add: view_def)

lemma take_concat_first:
  "yss \<noteq> [] \<Longrightarrow> length (hd yss) = n \<Longrightarrow> take n (concat yss) = hd yss"
  by (cases yss) simp_all

lemma expand_each_first_zero:
  assumes e: "expand_each t target = Inr s" and sh: "shape t = Suc n # sh"
    and z: "take (prod_list sh) (data t) = replicate (prod_list sh) 0"
  shows "shape s = Suc n # target \<and> index0 s = Inr (zeros target)"
proof -
  let ?src = "pad_shape (length target) sh"
  from expand_each_eq_Inr [OF e sh]
  have len: "length sh \<le> length target"
    and ok: "list_all2 (\<lambda>s d. s = d \<or> s = 1) ?src target" by simp_all
  let ?blocks = "map (expand_data ?src target) (chunks (Suc n) (prod_list sh) (data t))"
  from expand_each_ok [OF sh len ok] e
  have s: "s = \<lparr>shape = Suc n # target, data = concat ?blocks\<rparr>" by simp
  have hd: "hd ?blocks = expand_data ?src target (replicate (prod_list sh) 0)"
    by (simp add: chunks_Suc z)
  have "expand_data ?src target (replicate (prod_list sh) 0) = replicate (prod_list target) 0"
    by (rule expand_data_replicate [OF ok]) auto
  with hd have hd0: "hd ?blocks = replicate (prod_list target) 0" by simp
  have "?blocks \<noteq> []" by (simp add: chunks_Suc)
  from take_concat_first [OF this, of "prod_list target"] hd0
  have "take (prod_list target) (concat ?blocks) = replicate (prod_list target) 0" by simp
  then show ?thesis by (simp add: s index0_def zeros_def)
qed

lemma shape_tables_first_zero:
  assumes st: "shape_tables N k2_shape obs fs fw = Inr (w, s)"
    and N: "0 \<le> N"
    and sh: "shape fs = [Suc (nat N), prod_list k2_shape]"
    and z: "take (prod_list k2_shape) (data fs) = replicate (prod_list k2_shape) 0"
  shows "shape s = nat (N + 1) # obs \<and> index0 s = Inr (zeros obs)"
proof -
  from N have n: "nat (N + 1) = Suc (nat N)" by simp
  have v: "view fs (Suc (nat N) # k2_shape) = Inr \<lparr>shape = Suc (nat N) # k2_shape, data = data fs\<rparr>"
    by (rule view_Inr) (simp add: numel_def sh)
  show ?thesis
  proof (cases "k2_shape = obs")
    case True
    with st v have "s = \<lparr>shape = Suc (nat N) # obs, data = data fs\<rparr>"
      by (auto simp: shape_tables_def n bind_err_eq_Inr)
    then show ?thesis using z True by (simp add: n index0_def zeros_def)
  next
    case False
    with st v have "expand_each \<lparr>shape = Suc (nat N) # k2_shape, data = data fs\<rparr> obs = Inr s"
      by (auto simp: shape_tables_def n bind_err_eq_Inr)
    from expand_each_first_zero [OF this] z show ?thesis by (simp add: n)
  qed
qed

lemma nth_upto_1: "j < nat N \<Longrightarrow> [1..N] ! j = 1 + int j"
  by (simp add: nth_upto)

lemma quadrature_element_nth:
  assumes "j < nat N"
  shows "fst (quadrature_element env N a b) ! j = shift_formula env N a b j"
    and "snd (quadrature_element env N a b) ! j = weight_formula env N a b j"
proof -
  show "fst (quadrature_element env N a b) ! j = shift_formula env N a b j"
    using assms
    by (simp add: quadrature_element_def Let_def nth_upto_1 contour_point_def shift_formula_def
        transformed_sn_def split: prod.splits)
  show "snd (quadrature_element env N a b) ! j = weight_formula env N a b j"
    using assms
    by (simp add: quadrature_element_def Let_def nth_upto_1 contour_point_def weight_formula_def
        transformed_cn_def transformed_dn_def split: prod.splits)
qed

lemma cell_div_mod:
  fixes b C j :: nat
  assumes "b < C"
  shows "(j * C + b) div C = j" and "(j * C + b) mod C = b"
  using assms by simp_all

lemma contour_tables_cells:
  assumes N: "0 \<le> N" and l1: "length (data k2) = numel k2" and l2: "length (data min_eig) = numel k2"
  shows "\<exists>fs fw. contour_tables env N k2 min_eig = Inr (fs, fw) \<and>
           shape fs = [nat N + 1, numel k2] \<and> shape fw = [nat N, numel k2] \<and>
           length (data fs) = (nat N + 1) * numel k2 \<and> length (data fw) = nat N * numel k2 \<and>
           (\<forall>b < numel k2. \<forall>j < nat N.
              data fs ! ((j + 1) * numel k2 + b)
                = shift_formula env N (data k2 ! b) (data min_eig ! b) j \<and>
              data fw ! (j * numel k2 + b)
                = weight_formula env N (data k2 ! b) (data min_eig ! b) j)"
proof -
  let ?C = "numel k2" and ?n = "nat N"
  let ?elems = "zip (data k2) (data min_eig)"
  from N have n: "nat (N + 1) = Suc ?n" by simp
  have len: "length ?elems = ?C" using l1 l2 by simp
  have "\<exists>fs' fw'. contour_loop env N 0 ?elems (zeros [Suc ?n, ?C]) (zeros [?n, ?C]) = Inr (fs', fw') \<and>
           shape fs' = [Suc ?n, ?C] \<and> shape fw' = [?n, ?C] \<and>
           length (data fs') = Suc ?n * ?C \<and> length (data fw') = ?n * ?C \<and>
           (\<forall>k < Suc ?n * ?C. data fs' ! k =
              (if 1 \<le> k div ?C \<and> 0 \<le> k mod ?C \<and> k mod ?C < 0 + length ?elems
               then fst (quadrature_element env N (fst (?elems ! (k mod ?C - 0)))
                           (snd (?elems ! (k mod ?C - 0)))) ! (k div ?C - 1)
               else data (zeros [Suc ?n, ?C]) ! k)) \<and>
           (\<forall>k < ?n * ?C. data fw' ! k =
              (if 0 \<le> k mod ?C \<and> k mod ?C < 0 + length ?elems
               then snd (quadrature_element env N (fst (?elems ! (k mod ?C - 0)))
                           (snd (?elems ! (k mod ?C - 0)))) ! (k div ?C)
               else data (zeros [?n, ?C]) ! k))"
    by (rule contour_loop_tables) (simp_all add: zeros_def l1 l2)
  then obtain fs fw where
    loop: "contour_loop env N 0 ?elems (zeros [Suc ?n, ?C]) (zeros [?n, ?C]) = Inr (fs, fw)"
    and sh: "shape fs = [Suc ?n, ?C]" "shape fw = [?n, ?C]"
    and ln: "length (data fs) = Suc ?n * ?C" "length (data fw) = ?n * ?C"
    and ds: "\<forall>k < Suc ?n * ?C. data fs ! k =
              (if 1 \<le> k div ?C \<and> 0 \<le> k mod ?C \<and> k mod ?C < 0 + length ?elems
               then fst (quadrature_element env N (fst (?elems ! (k mod ?C - 0)))
                           (snd (?elems ! (k mod ?C - 0)))) ! (k div ?C - 1)
               else data (zeros [Suc ?n, ?C]) ! k)"
    and dw: "\<forall>k < ?n * ?C. data fw ! k =
              (if 0 \<le> k mod ?C \<and> k mod ?C < 0 + length ?elems
               then snd (quadrature_element env N (fst (?elems ! (k mod ?C - 0)))
                           (snd (?elems ! (k mod ?C - 0)))) ! (k div ?C)
               else data (zeros [?n, ?C]) ! k)"
    by blast
  have t: "contour_tables env N k2 min_eig = Inr (fs, fw)"
    using N loop by (simp add: contour_tables_def n)
  have cells: "data fs ! ((j + 1) * ?C + b) = shift_formula env N (data k2 ! b) (data min_eig ! b) j \<and>
               data fw ! (j * ?C + b) = weight_formula env N (data k2 ! b) (data min_eig ! b) j"
    if b: "b < ?C" and j: "j < ?n" for b j
  proof -
    have k1: "(j + 1) * ?C + b < Suc ?n * ?C"
    proof -
      have "(j + 1) * ?C + b < (j + 1) * ?C + ?C" using b by simp
      also have "\<dots> = (j + 2) * ?C" by simp
      also have "\<dots> \<le> Suc ?n * ?C" using j by (intro mult_le_mono1) simp
      finally show ?thesis .
    qed
    have k2: "j * ?C + b < ?n * ?C"
    proof -
      have "j * ?C + b < j * ?C + ?C" using b by simp
      also have "\<dots> = (j + 1) * ?C" by simp
      also have "\<dots> \<le> ?n * ?C" using j by (intro mult_le_mono1) simp
      finally show ?thesis .
    qed
    have e: "?elems ! b = (data k2 ! b, data min_eig ! b)" using b l1 l2 by simp
    have b': "b < length (data k2)" "b < length (data min_eig)" using b l1 l2 by simp_all
    note c1 = ds [rule_format, OF k1, unfolded cell_div_mod [OF b]]
    note c2 = dw [rule_format, OF k2, unfolded cell_div_mod [OF b]]
    have "data fs ! ((j + 1) * ?C + b) =
        fst (quadrature_element env N (data k2 ! b) (data min_eig ! b)) ! j"
      unfolding c1 using b' by simp
    moreover have "data fw ! (j * ?C + b) =
        snd (quadrature_element env N (data k2 ! b) (data min_eig ! b)) ! j"
      unfolding c2 using b' by simp
    ultimately show ?thesis
      using j by (simp add: quadrature_element_nth)
  qed
  show ?thesis
    using t sh ln cells by auto
qed



section \<open>Facts about the control flow\<close>

lemma solve_and_assemble_Inr:
  assumes "solve_and_assemble env lt rhs inverse_flag weights shifts st = Inr ((solves, w, nss, s), st')"
  shows "w = weights \<and> s = shifts \<and>
         index0 (minres env (\<lambda>v. matmul lt v) rhs (- 1) shifts) = Inr nss \<and>
         (\<exists>inverse_solves.
            slice_from1 (minres env (\<lambda>v. matmul lt v) rhs (- 1) shifts) = Inr inverse_solves \<and>
            solves = (if inverse_flag then inverse_solves else matmul lt inverse_solves) \<and>
            record_solve_stats lt rhs nss inverse_solves weights st = Inr st')"
  using assms by (auto simp: solve_and_assemble_def Let_def bind_err_eq_Inr)

lemma derive_shifts_weights_Inr:
  assumes "derive_shifts_weights env lt rhs L N obs st = Inr (w, s, st')"
  shows "\<exists>k2 min_eig fs fw.
           eig_estimates env lt rhs L st = Inr (k2, min_eig, st') \<and>
           contour_tables env N k2 min_eig = Inr (fs, fw) \<and>
           shape_tables N (shape k2) obs fs fw = Inr (w, s)"
  using assms by (auto simp: derive_shifts_weights_def bind_err_eq_Inr)

lemma contour_integral_quad_None_Inr:
  assumes "contour_integral_quad env lt rhs inverse_flag weights None L N st = Inr (r, st')"
  shows "\<exists>obs w s st1.
           mul_broadcast_shape (batch_shape lt) (butlast (butlast (shape rhs))) = Inr obs \<and>
           derive_shifts_weights env lt rhs L N obs st = Inr (w, s, st1) \<and>
           solve_and_assemble env lt rhs inverse_flag (Some w) s st1 = Inr (r, st')"
  using assms by (auto simp: contour_integral_quad_def prepare_shifts_def bind_err_eq_Inr)

lemma derived_shifts_first_zero:
  assumes "derive_shifts_weights env lt rhs L N obs st = Inr (w, s, st')"
  shows "0 \<le> N \<and> shape s = nat (N + 1) # obs \<and> index0 s = Inr (zeros obs)"
proof -
  from derive_shifts_weights_Inr [OF assms] obtain k2 min_eig fs fw where
    t: "contour_tables env N k2 min_eig = Inr (fs, fw)"
    and st: "shape_tables N (shape k2) obs fs fw = Inr (w, s)" by blast
  from contour_tables_Inr [OF t]
  have N: "0 \<le> N" and sh: "shape fs = [Suc (nat N), prod_list (shape k2)]"
    and z: "take (prod_list (shape k2)) (data fs) = replicate (prod_list (shape k2)) 0"
    by (simp_all add: numel_def)
  from shape_tables_first_zero [OF st N sh z] N show ?thesis by simp
qed

lemma slice_from1_of_index0:
  "index0 t = Inr a \<Longrightarrow> \<exists>b. slice_from1 t = Inr b"
  by (auto simp: index0_def slice_from1_def split: list.splits)

lemma record_solve_stats_off: "\<not> on st \<Longrightarrow> record_solve_stats lt rhs nss isv w st = Inr st"
  by (simp add: record_solve_stats_def)

lemma solve_and_assemble_eq_Inr:
  "solve_and_assemble env lt rhs inverse_flag weights shifts st = Inr ((solves, w, nss, s), st') \<longleftrightarrow>
     w = weights \<and> s = shifts \<and>
     index0 (minres env (\<lambda>v. matmul lt v) rhs (- 1) shifts) = Inr nss \<and>
     (\<exists>inverse_solves.
        slice_from1 (minres env (\<lambda>v. matmul lt v) rhs (- 1) shifts) = Inr inverse_solves \<and>
        solves = (if inverse_flag then inverse_solves else matmul lt inverse_solves) \<and>
        record_solve_stats lt rhs nss inverse_solves weights st = Inr st')"
  by (cases inverse_flag) (auto simp: solve_and_assemble_def Let_def bind_err_eq_Inr)

lemma contour_integral_quad_eq_Inr:
  "contour_integral_quad env lt rhs inverse_flag weights shifts L N st = Inr (r, st') \<longleftrightarrow>
     (\<exists>obs w s st1.
        mul_broadcast_shape (batch_shape lt) (butlast (butlast (shape rhs))) = Inr obs \<and>
        prepare_shifts env lt rhs weights shifts L N obs st = Inr (w, s, st1) \<and>
        solve_and_assemble env lt rhs inverse_flag w s st1 = Inr (r, st'))"
  by (auto simp: contour_integral_quad_def bind_err_eq_Inr)

section \<open>Facts about the eigenvalue estimates and the divisors\<close>

lemma approx_eigs_try_cases:
  "approx_eigs_try env lm = Inl RuntimeError \<or> (\<exists>e. approx_eigs_try env lm = Inr e)"
  by (auto simp: approx_eigs_try_def min_all_def split: option.splits)










section \<open>The code on the two operators\<close>

lemma ex_init: "init_vecs example_lt example_rhs = Inr \<lparr>shape = [2, 1], data = [1, 1]\<rparr>"
  by (simp add: init_vecs_def index0_def first_column_def expand_def pad_shape_def
      chunks_def lt_shape_def lt_dim_def Let_def example_rhs_def example_lt_def upt_rec)

lemma ex_init_batched: "init_vecs example_lt batched_rhs = Inr \<lparr>shape = [2, 1], data = [1, 1]\<rparr>"
  by (simp add: init_vecs_def index0_def first_column_def expand_def pad_shape_def
      chunks_def lt_shape_def lt_dim_def Let_def batched_rhs_def example_lt_def upt_rec)

lemma ex_est_from_init:
  "init_vecs example_lt rhs = Inr iv \<Longrightarrow>
   eig_estimates example_env example_lt rhs 7 st
     = (if on st then Inr (\<lparr>shape = [], data = [1]\<rparr>, \<lparr>shape = [], data = [2]\<rparr>, st\<lparr>condition_number := 1\<rparr>)
        else Inr (\<lparr>shape = [], data = [1]\<rparr>, \<lparr>shape = [], data = [2]\<rparr>, st))"
  by (simp add: eig_estimates_def estimate_eigs_def approx_eigs_try_def min_all_def
      max_last_def min_last_def reduce_last_def eig_ratio_def record_condition_number_def
      mean_item_def chunks_def example_env_def example_lt_def)

lemma ex_q: "quadrature_element example_env 1 1 2 = ([- 2], [- (2 * sqrt 2)])"
  by (simp add: quadrature_element_def example_env_def Let_def upto.simps cos_45 sin_45 power2_eq_square)

lemma ex_tables: "contour_tables example_env 1 \<lparr>shape = [], data = [1]\<rparr> \<lparr>shape = [], data = [2]\<rparr>
   = Inr (\<lparr>shape = [2, 1], data = [0, - 2]\<rparr>, \<lparr>shape = [1, 1], data = [- (2 * sqrt 2)]\<rparr>)"
  using ex_q by (simp add: contour_tables_def zeros_def numel_def copy_col_def Let_def numeral_2_eq_2)

lemma ex_shape: "shape_tables 1 [] [] \<lparr>shape = [2, 1], data = [0, - 2]\<rparr> \<lparr>shape = [1, 1], data = [- (2 * sqrt 2)]\<rparr>
   = Inr (\<lparr>shape = [1, 1, 1], data = [- (2 * sqrt 2)]\<rparr>, \<lparr>shape = [2], data = [0, - 2]\<rparr>)"
  by (simp add: shape_tables_def view_def numel_def)

lemma ex_shape_batched: "shape_tables 1 [] [2] \<lparr>shape = [2, 1], data = [0, - 2]\<rparr> \<lparr>shape = [1, 1], data = [- (2 * sqrt 2)]\<rparr>
   = Inr (\<lparr>shape = [1, 2, 1, 1], data = [- (2 * sqrt 2), - (2 * sqrt 2)]\<rparr>, \<lparr>shape = [2, 2], data = [0, 0, - 2, - 2]\<rparr>)"
  by (simp add: shape_tables_def view_def numel_def expand_each_def unbind0_def chunks_def expand_def
      pad_shape_def stack0_def upt_rec numeral_2_eq_2)

lemma ex_obs: "mul_broadcast_shape (batch_shape example_lt) (butlast (butlast (shape example_rhs))) = Inr []"
  by (simp add: mul_broadcast_shape_def broadcast_shape_def example_lt_def example_rhs_def pad_shape_def)

lemma ex_obs_batched: "mul_broadcast_shape (batch_shape example_lt) (butlast (butlast (shape batched_rhs))) = Inr [2]"
  by (simp add: mul_broadcast_shape_def broadcast_shape_def example_lt_def batched_rhs_def pad_shape_def)

lemma ex_minres: "minres example_env mm example_rhs (- 1) \<lparr>shape = [2], data = [0, - 2]\<rparr>
   = \<lparr>shape = [2, 2, 1], data = [- (1 / 2), - (1 / 2), - (1 / 4), - (1 / 4)]\<rparr>"
  by (simp add: example_env_def example_minres_def example_rhs_def chunks_def upt_rec numeral_2_eq_2)

lemma ex_minres_batched: "minres example_env mm batched_rhs (- 1) \<lparr>shape = [2, 2], data = [0, 0, - 2, - 2]\<rparr>
   = \<lparr>shape = [2, 2, 2, 1], data = [- (1 / 2), - (1 / 2), - (1 / 2), - (1 / 2), - (1 / 4), - (1 / 4), - (1 / 4), - (1 / 4)]\<rparr>"
  by (simp add: example_env_def example_minres_def batched_rhs_def chunks_def upt_rec Let_def nth_Cons' div_Suc mod_Suc)

lemma ex_derive: "derive_shifts_weights example_env example_lt example_rhs 7 1 [] stats_off
   = Inr (\<lparr>shape = [1, 1, 1], data = [- (2 * sqrt 2)]\<rparr>, \<lparr>shape = [2], data = [0, - 2]\<rparr>, stats_off)"
  using ex_est_from_init [OF ex_init, of stats_off] ex_tables ex_shape
  by (simp add: derive_shifts_weights_def stats_off_def)

lemma ex_derive_batched: "derive_shifts_weights example_env example_lt batched_rhs 7 1 [2] stats_off
   = Inr (\<lparr>shape = [1, 2, 1, 1], data = [- (2 * sqrt 2), - (2 * sqrt 2)]\<rparr>,
          \<lparr>shape = [2, 2], data = [0, 0, - 2, - 2]\<rparr>, stats_off)"
  using ex_est_from_init [OF ex_init_batched, of stats_off] ex_tables ex_shape_batched
  by (simp add: derive_shifts_weights_def stats_off_def)

lemma ex_solve_off:
  "solve_and_assemble example_env example_lt example_rhs inverse_flag w \<lparr>shape = [2], data = [0, - 2]\<rparr> stats_off
   = Inr ((if inverse_flag then \<lparr>shape = [1, 2, 1], data = [- (1 / 4), - (1 / 4)]\<rparr>
           else \<lparr>shape = [1, 2, 1], data = [- (1 / 2), - (1 / 2)]\<rparr>,
           w, \<lparr>shape = [2, 1], data = [- (1 / 2), - (1 / 2)]\<rparr>,
           \<lparr>shape = [2], data = [0, - 2]\<rparr>), stats_off)"
  using ex_minres [of "\<lambda>v. matmul example_lt v"]
  by (simp add: solve_and_assemble_def index0_def slice_from1_def record_solve_stats_def stats_off_def
      example_lt_def map_tensor_def)

lemma ex_ciq_inverse_any_weights:
  "contour_integral_quad example_env example_lt example_rhs True caller_weights None 7 1 stats_off
   = Inr ((\<lparr>shape = [1, 2, 1], data = [- (1 / 4), - (1 / 4)]\<rparr>,
           Some \<lparr>shape = [1, 1, 1], data = [- (2 * sqrt 2)]\<rparr>,
           \<lparr>shape = [2, 1], data = [- (1 / 2), - (1 / 2)]\<rparr>,
           \<lparr>shape = [2], data = [0, - 2]\<rparr>), stats_off)"
  using ex_obs ex_derive ex_solve_off [of True]
  by (simp add: contour_integral_quad_def prepare_shifts_def)

lemmas ex_ciq_inverse = ex_ciq_inverse_any_weights [of None]

lemma ex_ciq_forward: "contour_integral_quad example_env example_lt example_rhs False None None 7 1 stats_off
   = Inr ((\<lparr>shape = [1, 2, 1], data = [- (1 / 2), - (1 / 2)]\<rparr>,
           Some \<lparr>shape = [1, 1, 1], data = [- (2 * sqrt 2)]\<rparr>,
           \<lparr>shape = [2, 1], data = [- (1 / 2), - (1 / 2)]\<rparr>,
           \<lparr>shape = [2], data = [0, - 2]\<rparr>), stats_off)"
  using ex_obs ex_derive ex_solve_off [of False]
  by (simp add: contour_integral_quad_def prepare_shifts_def)

lemma ex_ciq_given_shifts:
  "contour_integral_quad example_env example_lt example_rhs True None
      (Some \<lparr>shape = [2], data = [0, - 2]\<rparr>) 7 1 stats_off
   = Inr ((\<lparr>shape = [1, 2, 1], data = [- (1 / 4), - (1 / 4)]\<rparr>, None,
           \<lparr>shape = [2, 1], data = [- (1 / 2), - (1 / 2)]\<rparr>,
           \<lparr>shape = [2], data = [0, - 2]\<rparr>), stats_off)"
  using ex_obs ex_solve_off [of True None]
  by (simp add: contour_integral_quad_def prepare_shifts_def)

lemma ex_residual:
  "compute_minres_residual example_lt \<lparr>shape = [2, 1], data = [- (1 / 2), - (1 / 2)]\<rparr> example_rhs = Inr 0"
  by (simp add: compute_minres_residual_def example_lt_def example_rhs_def broadcast2_def
     broadcast_shape_def pad_shape_def expand_def map_tensor_def minres_residual_divisor_def norm_dim_m2_def
     reduce_dim_m2_def chunks_def clamp_min_def inplace2_def mean_item_def Let_def upt_rec)

lemma ex_inv_quad:
  "inv_quad_res \<lparr>shape = [2, 1], data = [- (1 / 2), - (1 / 2)]\<rparr> example_rhs = Inr \<lparr>shape = [1], data = [1]\<rparr>"
  by (simp add: inv_quad_res_def example_rhs_def broadcast2_def
     broadcast_shape_def pad_shape_def expand_def map_tensor_def sum_dim_m2_def
     reduce_dim_m2_def chunks_def Let_def upt_rec)

lemma ex_ciq_diff:
  "compute_ciq_diff \<lparr>shape = [1, 2, 1], data = [- (1 / 4), - (1 / 4)]\<rparr>
      (Some \<lparr>shape = [1, 1, 1], data = [- (2 * sqrt 2)]\<rparr>) \<lparr>shape = [1], data = [1]\<rparr> = Inr 0"
  by (simp add: compute_ciq_diff_def broadcast2_def ciq_diff_divisor_def
     broadcast_shape_def pad_shape_def expand_def map_tensor_def sum_dim_m2_def sum_dim0_def
     reduce_dim_m2_def chunks_def clamp_min_def inplace2_def mean_item_def Let_def upt_rec power2_eq_square)

lemma ex_solve_on_no_weights:
  "solve_and_assemble example_env example_lt example_rhs True None \<lparr>shape = [2], data = [0, - 2]\<rparr> stats_on
   = Inl TypeError"
  using ex_minres [of "\<lambda>v. matmul example_lt v"] ex_residual ex_inv_quad
  by (simp add: solve_and_assemble_def index0_def slice_from1_def record_solve_stats_def stats_on_def
      compute_ciq_diff_def)

lemma sing_init: "init_vecs singular_lt example_rhs = Inr \<lparr>shape = [2, 1], data = [1, 1]\<rparr>"
  by (simp add: init_vecs_def index0_def first_column_def expand_def pad_shape_def
      chunks_def lt_shape_def lt_dim_def Let_def example_rhs_def singular_lt_def upt_rec)


lemma ex_solve_batched:
  "solve_and_assemble example_env example_lt batched_rhs True w \<lparr>shape = [2, 2], data = [0, 0, - 2, - 2]\<rparr> stats_off
   = Inr ((\<lparr>shape = [1, 2, 2, 1], data = [- (1 / 4), - (1 / 4), - (1 / 4), - (1 / 4)]\<rparr>,
           w, \<lparr>shape = [2, 2, 1], data = [- (1 / 2), - (1 / 2), - (1 / 2), - (1 / 2)]\<rparr>,
           \<lparr>shape = [2, 2], data = [0, 0, - 2, - 2]\<rparr>), stats_off)"
  using ex_minres_batched [of "\<lambda>v. matmul example_lt v"]
  by (simp add: solve_and_assemble_def index0_def slice_from1_def record_solve_stats_def stats_off_def)

lemma ex_ciq_batched:
  "contour_integral_quad example_env example_lt batched_rhs True None None 7 1 stats_off
   = Inr ((\<lparr>shape = [1, 2, 2, 1], data = [- (1 / 4), - (1 / 4), - (1 / 4), - (1 / 4)]\<rparr>,
           Some \<lparr>shape = [1, 2, 1, 1], data = [- (2 * sqrt 2), - (2 * sqrt 2)]\<rparr>,
           \<lparr>shape = [2, 2, 1], data = [- (1 / 2), - (1 / 2), - (1 / 2), - (1 / 2)]\<rparr>,
           \<lparr>shape = [2, 2], data = [0, 0, - 2, - 2]\<rparr>), stats_off)"
  using ex_obs_batched ex_derive_batched ex_solve_batched
  by (simp add: contour_integral_quad_def prepare_shifts_def)

lemma ex_derive_on: "derive_shifts_weights example_env example_lt example_rhs 7 1 [] stats_on
   = Inr (\<lparr>shape = [1, 1, 1], data = [- (2 * sqrt 2)]\<rparr>, \<lparr>shape = [2], data = [0, - 2]\<rparr>,
          stats_on\<lparr>condition_number := 1\<rparr>)"
  using ex_est_from_init [OF ex_init, of stats_on] ex_tables ex_shape
  by (simp add: derive_shifts_weights_def stats_on_def)

lemma ex_solve_on:
  "solve_and_assemble example_env example_lt example_rhs True
      (Some \<lparr>shape = [1, 1, 1], data = [- (2 * sqrt 2)]\<rparr>) \<lparr>shape = [2], data = [0, - 2]\<rparr>
      (stats_on\<lparr>condition_number := 1\<rparr>)
   = Inr ((\<lparr>shape = [1, 2, 1], data = [- (1 / 4), - (1 / 4)]\<rparr>,
           Some \<lparr>shape = [1, 1, 1], data = [- (2 * sqrt 2)]\<rparr>,
           \<lparr>shape = [2, 1], data = [- (1 / 2), - (1 / 2)]\<rparr>,
           \<lparr>shape = [2], data = [0, - 2]\<rparr>),
          stats_on\<lparr>condition_number := 1, minres_residual := 0, ciq_diff := 0\<rparr>)"
  using ex_minres [of "\<lambda>v. matmul example_lt v"] ex_residual ex_inv_quad ex_ciq_diff
  by (simp add: solve_and_assemble_def index0_def slice_from1_def record_solve_stats_def stats_on_def)

lemma ex_ciq_on:
  "contour_integral_quad example_env example_lt example_rhs True None None 7 1 stats_on
   = Inr ((\<lparr>shape = [1, 2, 1], data = [- (1 / 4), - (1 / 4)]\<rparr>,
           Some \<lparr>shape = [1, 1, 1], data = [- (2 * sqrt 2)]\<rparr>,
           \<lparr>shape = [2, 1], data = [- (1 / 2), - (1 / 2)]\<rparr>,
           \<lparr>shape = [2], data = [0, - 2]\<rparr>),
          stats_on\<lparr>condition_number := 1, minres_residual := 0, ciq_diff := 0\<rparr>)"
  using ex_obs ex_derive_on ex_solve_on
  by (simp add: contour_integral_quad_def prepare_shifts_def)

lemma ex_derive_negative:
  "derive_shifts_weights example_env example_lt example_rhs 7 (- 1) [] stats_off = Inl RuntimeError"
  using ex_est_from_init [OF ex_init, of stats_off]
  by (simp add: derive_shifts_weights_def stats_off_def contour_tables_def)

lemma ex_slice:
  "slice_from1 (minres example_env (\<lambda>v. matmul example_lt v) example_rhs (- 1) \<lparr>shape = [2], data = [0, - 2]\<rparr>)
     = Inr \<lparr>shape = [1, 2, 1], data = [- (1 / 4), - (1 / 4)]\<rparr>"
  using ex_minres [of "\<lambda>v. matmul example_lt v"] by (simp add: slice_from1_def)

lemma ex_index0:
  "index0 (minres example_env (\<lambda>v. matmul example_lt v) example_rhs (- 1) \<lparr>shape = [2], data = [0, - 2]\<rparr>)
     = Inr \<lparr>shape = [2, 1], data = [- (1 / 2), - (1 / 2)]\<rparr>"
  using ex_minres [of "\<lambda>v. matmul example_lt v"] by (simp add: index0_def)


lemma sing_lanczos:
  "snd (lanczos_tridiag singular_env (\<lambda>v. matmul singular_lt v) \<lparr>shape = [2, 1], data = [1, 1]\<rparr>
          (matrix_shape singular_lt) (batch_shape singular_lt) 7)
     = \<lparr>shape = [2, 2], data = [1 / 2, 1 / 2, 1 / 2, 1 / 2]\<rparr>"
  by (simp add: singular_env_def singular_lt_def)

lemma sing_symeig:
  "symeig singular_env \<lparr>shape = [2, 2], data = [1 / 2, 1 / 2, 1 / 2, 1 / 2]\<rparr>
     = Some \<lparr>shape = [2], data = [0, 1]\<rparr>"
  by (simp add: singular_env_def)

section \<open>The claims\<close>

subsection \<open>C1: the extra product\<close>

text \<open>
  C1.  Whenever \<^verbatim>\<open>contour_integral_quad\<close> returns, its first component comes from the
  inverse solves, which are the stacked output of the solver without the entry at index 0:
  with \<^verbatim>\<open>inverse=False\<close> it is \<^verbatim>\<open>_matmul\<close> of the operator applied once to the stacked
  inverse solves, with \<^verbatim>\<open>inverse=True\<close> it is the inverse solves themselves.
\<close>

theorem extra_matmul_unless_inverse:
  assumes "contour_integral_quad env lt rhs inverse_flag weights shifts max_lanczos_iter
             num_contour_quadrature st = Inr ((solves, w, no_shift_solves, s), st')"
  shows "\<exists>inverse_solves.
           slice_from1 (minres env (\<lambda>v. matmul lt v) rhs (- 1) s) = Inr inverse_solves \<and>
           (\<not> inverse_flag \<longrightarrow> solves = matmul lt inverse_solves) \<and>
           (inverse_flag \<longrightarrow> solves = inverse_solves)"
proof -
  from assms obtain w1 s1 st1 where
    "solve_and_assemble env lt rhs inverse_flag w1 s1 st1 = Inr ((solves, w, no_shift_solves, s), st')"
    by (auto simp: contour_integral_quad_eq_Inr)
  then show ?thesis by (auto simp: solve_and_assemble_eq_Inr)
qed

theorem extra_matmul_unless_inverse_witness:
  "contour_integral_quad example_env example_lt example_rhs False None None 7 1 stats_off
     = Inr ((\<lparr>shape = [1, 2, 1], data = [- (1 / 2), - (1 / 2)]\<rparr>,
             Some \<lparr>shape = [1, 1, 1], data = [- (2 * sqrt 2)]\<rparr>,
             \<lparr>shape = [2, 1], data = [- (1 / 2), - (1 / 2)]\<rparr>,
             \<lparr>shape = [2], data = [0, - 2]\<rparr>), stats_off) \<and>
   (\<exists>inverse_solves.
      slice_from1 (minres example_env (\<lambda>v. matmul example_lt v) example_rhs (- 1)
                     \<lparr>shape = [2], data = [0, - 2]\<rparr>) = Inr inverse_solves \<and>
      \<lparr>shape = [1, 2, 1], data = [- (1 / 2), - (1 / 2)]\<rparr> = matmul example_lt inverse_solves)"
  using ex_ciq_forward extra_matmul_unless_inverse [OF ex_ciq_forward] by simp

subsection \<open>C2: the formulas of shifts and weights\<close>

text \<open>
  C2.  With \<^verbatim>\<open>shifts\<close> not supplied and \<open>N = num_contour_quadrature\<close> not negative, the
  loop over the batch elements ends with tables in which, for every batch element \<open>b\<close> and
  every \<open>j < N\<close>, the shift in row \<open>j + 1\<close> is the real part of the square of
  \<open>sqrt min_eig\<close> times the transformed \<open>sn\<close> at the \<open>j\<close>-th contour point, and the weight in
  row \<open>j\<close> is the product of the transformed \<open>cn\<close> and \<open>dn\<close> at that point times
  \<open>-2 Kp sqrt min_eig / (\<pi> N)\<close>, where \<open>Kp = ellipk (1 - k2)\<close>.  The tensors \<^verbatim>\<open>shifts\<close> and
  \<^verbatim>\<open>weights\<close> are views of these tables.
\<close>

theorem contour_tables_formulas:
  assumes "0 \<le> num_contour_quadrature"
    and "length (data k2) = numel k2" and "length (data min_eig) = numel k2"
  shows "\<exists>flat_shifts flat_weights.
           contour_tables env num_contour_quadrature k2 min_eig = Inr (flat_shifts, flat_weights) \<and>
           shape flat_shifts = [nat num_contour_quadrature + 1, numel k2] \<and>
           shape flat_weights = [nat num_contour_quadrature, numel k2] \<and>
           (\<forall>b < numel k2. \<forall>j < nat num_contour_quadrature.
              data flat_shifts ! ((j + 1) * numel k2 + b)
                = shift_formula env num_contour_quadrature (data k2 ! b) (data min_eig ! b) j \<and>
              data flat_weights ! (j * numel k2 + b)
                = weight_formula env num_contour_quadrature (data k2 ! b) (data min_eig ! b) j) \<and>
           shape_tables num_contour_quadrature (shape k2) (shape k2) flat_shifts flat_weights
             = Inr (\<lparr>shape = nat num_contour_quadrature # shape k2 @ [1, 1], data = data flat_weights\<rparr>,
                    \<lparr>shape = nat (num_contour_quadrature + 1) # shape k2, data = data flat_shifts\<rparr>)"
proof -
  from contour_tables_cells [OF assms, of env] obtain fs fw where
    t: "contour_tables env num_contour_quadrature k2 min_eig = Inr (fs, fw)"
    and sh: "shape fs = [nat num_contour_quadrature + 1, numel k2]"
            "shape fw = [nat num_contour_quadrature, numel k2]"
    and cells: "\<forall>b < numel k2. \<forall>j < nat num_contour_quadrature.
              data fs ! ((j + 1) * numel k2 + b)
                = shift_formula env num_contour_quadrature (data k2 ! b) (data min_eig ! b) j \<and>
              data fw ! (j * numel k2 + b)
                = weight_formula env num_contour_quadrature (data k2 ! b) (data min_eig ! b) j"
    by blast
  from assms(1) have n1: "nat (num_contour_quadrature + 1) = Suc (nat num_contour_quadrature)" by simp
  have "view fw (nat num_contour_quadrature # shape k2 @ [1, 1])
          = Inr \<lparr>shape = nat num_contour_quadrature # shape k2 @ [1, 1], data = data fw\<rparr>"
    by (rule view_Inr) (simp add: numel_def sh [unfolded numel_def])
  moreover have "view fs (nat (num_contour_quadrature + 1) # shape k2)
          = Inr \<lparr>shape = nat (num_contour_quadrature + 1) # shape k2, data = data fs\<rparr>"
    by (rule view_Inr) (simp add: numel_def sh [unfolded numel_def] n1)
  ultimately have "shape_tables num_contour_quadrature (shape k2) (shape k2) fs fw
             = Inr (\<lparr>shape = nat num_contour_quadrature # shape k2 @ [1, 1], data = data fw\<rparr>,
                    \<lparr>shape = nat (num_contour_quadrature + 1) # shape k2, data = data fs\<rparr>)"
    by (simp add: shape_tables_def)
  with t sh cells show ?thesis by blast
qed

theorem contour_tables_formulas_witness:
  "(0 :: int) \<le> 1 \<and>
   length (data \<lparr>shape = [], data = [1 :: real]\<rparr>) = numel \<lparr>shape = [], data = [1 :: real]\<rparr> \<and>
   length (data \<lparr>shape = [], data = [2 :: real]\<rparr>) = numel \<lparr>shape = [], data = [1 :: real]\<rparr> \<and>
   contour_tables example_env 1 \<lparr>shape = [], data = [1]\<rparr> \<lparr>shape = [], data = [2]\<rparr>
     = Inr (\<lparr>shape = [2, 1], data = [0, - 2]\<rparr>, \<lparr>shape = [1, 1], data = [- (2 * sqrt 2)]\<rparr>) \<and>
   shift_formula example_env 1 1 2 0 = - 2 \<and>
   weight_formula example_env 1 1 2 0 = - (2 * sqrt 2)"
proof -
  have h: "(0 :: int) \<le> 1"
    "length (data \<lparr>shape = [], data = [1 :: real]\<rparr>) = numel \<lparr>shape = [], data = [1 :: real]\<rparr>"
    "length (data \<lparr>shape = [], data = [2 :: real]\<rparr>) = numel \<lparr>shape = [], data = [1 :: real]\<rparr>"
    by (simp_all add: numel_def)
  from contour_tables_formulas [OF h, of example_env] ex_tables
  have "shift_formula example_env 1 1 2 0 = - 2 \<and> weight_formula example_env 1 1 2 0 = - (2 * sqrt 2)"
    by (auto simp: numel_def)
  with h ex_tables show ?thesis by blast
qed

subsection \<open>C3: the zero shift\<close>

text \<open>
  C3.  Whenever \<^verbatim>\<open>contour_integral_quad\<close> returns from a call without \<^verbatim>\<open>shifts\<close>, the
  returned shifts have \<open>num_contour_quadrature + 1\<close> entries for every element of the
  output batch shape, and the entry at index 0 is the zero tensor of that batch shape,
  whatever the operator, the collaborators and \<open>num_contour_quadrature\<close> are.
\<close>

theorem derived_shift_zero_first:
  assumes "contour_integral_quad env lt rhs inverse_flag weights None max_lanczos_iter
             num_contour_quadrature st = Inr ((solves, w, no_shift_solves, shifts), st')"
  shows "\<exists>output_batch_shape.
           mul_broadcast_shape (batch_shape lt) (butlast (butlast (shape rhs))) = Inr output_batch_shape \<and>
           0 \<le> num_contour_quadrature \<and>
           shape shifts = nat (num_contour_quadrature + 1) # output_batch_shape \<and>
           index0 shifts = Inr (zeros output_batch_shape)"
proof -
  from contour_integral_quad_None_Inr [OF assms] obtain obs w' s st1 where
    obs: "mul_broadcast_shape (batch_shape lt) (butlast (butlast (shape rhs))) = Inr obs"
    and d: "derive_shifts_weights env lt rhs max_lanczos_iter num_contour_quadrature obs st = Inr (w', s, st1)"
    and sa: "solve_and_assemble env lt rhs inverse_flag (Some w') s st1
              = Inr ((solves, w, no_shift_solves, shifts), st')"
    by blast
  from solve_and_assemble_Inr [OF sa] have "shifts = s" by simp
  with derived_shifts_first_zero [OF d] obs show ?thesis by simp
qed

theorem derived_shift_zero_first_witness:
  "contour_integral_quad example_env example_lt batched_rhs True None None 7 1 stats_off
   = Inr ((\<lparr>shape = [1, 2, 2, 1], data = [- (1 / 4), - (1 / 4), - (1 / 4), - (1 / 4)]\<rparr>,
           Some \<lparr>shape = [1, 2, 1, 1], data = [- (2 * sqrt 2), - (2 * sqrt 2)]\<rparr>,
           \<lparr>shape = [2, 2, 1], data = [- (1 / 2), - (1 / 2), - (1 / 2), - (1 / 2)]\<rparr>,
           \<lparr>shape = [2, 2], data = [0, 0, - 2, - 2]\<rparr>), stats_off) \<and>
   mul_broadcast_shape (batch_shape example_lt) (butlast (butlast (shape batched_rhs))) = Inr [2] \<and>
   shape \<lparr>shape = [2, 2], data = [0, 0, - 2, - 2 :: real]\<rparr> = nat (1 + 1) # [2] \<and>
   index0 \<lparr>shape = [2, 2], data = [0, 0, - 2, - 2 :: real]\<rparr> = Inr (zeros [2]) \<and>
   zeros [2] = \<lparr>shape = [2], data = [0, 0]\<rparr>"
  using ex_ciq_batched ex_obs_batched derived_shift_zero_first [OF ex_ciq_batched]
  by (simp add: zeros_def numeral_2_eq_2)

subsection \<open>C4: fallback to the diagonal\<close>

text \<open>
  C4.  The \<^verbatim>\<open>try\<close> statement around the eigen-decomposition never lets an error out.
  If \<^verbatim>\<open>symeig\<close> fails, or if the smallest eigenvalue it yields is not positive (or there is
  none), the estimates are \<^verbatim>\<open>lazy_tensor.diag()\<close>, and \<open>max_eig\<close>, \<open>min_eig\<close> and \<open>k2\<close> of
  the contour are computed from these diagonal values.
\<close>

theorem eig_fallback_to_diag:
  "(\<exists>a. estimate_eigs env lt lanczos_mat = Inr a) \<and>
   (symeig env lanczos_mat = None \<or>
    (\<exists>e. symeig env lanczos_mat = Some e \<and> (data e = [] \<or> list_min (data e) \<le> 0))
      \<longrightarrow> estimate_eigs env lt lanczos_mat = Inr (diag lt)) \<and>
   (init_vecs lt rhs = Inr iv \<and>
    lanczos_mat = snd (lanczos_tridiag env (\<lambda>v. matmul lt v) iv (matrix_shape lt) (batch_shape lt)
                          max_lanczos_iter) \<and>
    (symeig env lanczos_mat = None \<or>
     (\<exists>e. symeig env lanczos_mat = Some e \<and> (data e = [] \<or> list_min (data e) \<le> 0)))
      \<longrightarrow> eig_estimates env lt rhs max_lanczos_iter st =
           bind_err (max_last (diag lt)) (\<lambda>max_eig.
           bind_err (min_last (diag lt)) (\<lambda>min_eig.
           bind_err (record_condition_number (eig_ratio min_eig max_eig) max_eig st) (\<lambda>st'.
           Inr (eig_ratio min_eig max_eig, min_eig, st')))))"
proof -
  have total: "\<exists>a. estimate_eigs env lt lanczos_mat = Inr a"
    using approx_eigs_try_cases [of env lanczos_mat] by (auto simp: estimate_eigs_def)
  have fb: "estimate_eigs env lt lm = Inr (diag lt)"
    if "symeig env lm = None \<or>
        (\<exists>e. symeig env lm = Some e \<and> (data e = [] \<or> list_min (data e) \<le> 0))" for lm
    using that by (auto simp: estimate_eigs_def approx_eigs_try_def min_all_def)
  have "eig_estimates env lt rhs max_lanczos_iter st =
           bind_err (max_last (diag lt)) (\<lambda>max_eig.
           bind_err (min_last (diag lt)) (\<lambda>min_eig.
           bind_err (record_condition_number (eig_ratio min_eig max_eig) max_eig st) (\<lambda>st'.
           Inr (eig_ratio min_eig max_eig, min_eig, st'))))"
    if "init_vecs lt rhs = Inr iv"
      and "lanczos_mat = snd (lanczos_tridiag env (\<lambda>v. matmul lt v) iv (matrix_shape lt)
                                (batch_shape lt) max_lanczos_iter)"
      and "symeig env lanczos_mat = None \<or>
        (\<exists>e. symeig env lanczos_mat = Some e \<and> (data e = [] \<or> list_min (data e) \<le> 0))"
    using that(1) fb [OF that(3)] unfolding that(2)
    by (simp add: eig_estimates_def Let_def case_prod_beta)
  with total fb show ?thesis by blast
qed

theorem eig_fallback_to_diag_witness:
  "init_vecs singular_lt example_rhs = Inr \<lparr>shape = [2, 1], data = [1, 1]\<rparr> \<and>
   symeig singular_env \<lparr>shape = [2, 2], data = [1 / 2, 1 / 2, 1 / 2, 1 / 2]\<rparr>
     = Some \<lparr>shape = [2], data = [0, 1]\<rparr> \<and>
   list_min (data \<lparr>shape = [2], data = [0, 1 :: real]\<rparr>) \<le> 0 \<and>
   estimate_eigs singular_env singular_lt \<lparr>shape = [2, 2], data = [1 / 2, 1 / 2, 1 / 2, 1 / 2]\<rparr>
     = Inr \<lparr>shape = [2], data = [0, 1]\<rparr> \<and>
   eig_estimates singular_env singular_lt example_rhs 7 stats_off
     = Inr (\<lparr>shape = [], data = [0]\<rparr>, \<lparr>shape = [], data = [0]\<rparr>, stats_off)"
proof -
  let ?lm = "\<lparr>shape = [2, 2], data = [1 / 2, 1 / 2, 1 / 2, 1 / 2 :: real]\<rparr>"
  have m: "list_min (data \<lparr>shape = [2], data = [0, 1 :: real]\<rparr>) \<le> 0" by simp
  have c: "symeig singular_env ?lm = None \<or>
      (\<exists>e. symeig singular_env ?lm = Some e \<and> (data e = [] \<or> list_min (data e) \<le> 0))"
    using sing_symeig m by simp
  note t = eig_fallback_to_diag
    [where env = singular_env and lt = singular_lt and lanczos_mat = ?lm and rhs = example_rhs
       and iv = "\<lparr>shape = [2, 1], data = [1, 1]\<rparr>" and max_lanczos_iter = 7 and st = stats_off]
  from t c have e: "estimate_eigs singular_env singular_lt ?lm = Inr (diag singular_lt)" by blast
  from t c sing_init sing_lanczos
  have "eig_estimates singular_env singular_lt example_rhs 7 stats_off =
           bind_err (max_last (diag singular_lt)) (\<lambda>max_eig.
           bind_err (min_last (diag singular_lt)) (\<lambda>min_eig.
           bind_err (record_condition_number (eig_ratio min_eig max_eig) max_eig stats_off) (\<lambda>st'.
           Inr (eig_ratio min_eig max_eig, min_eig, st'))))"
    by simp
  then have "eig_estimates singular_env singular_lt example_rhs 7 stats_off
     = Inr (\<lparr>shape = [], data = [0]\<rparr>, \<lparr>shape = [], data = [0]\<rparr>, stats_off)"
    by (simp add: singular_lt_def max_last_def min_last_def reduce_last_def chunks_def
        eig_ratio_def record_condition_number_def stats_off_def)
  with sing_init sing_symeig m e show ?thesis by (simp add: singular_lt_def)
qed

subsection \<open>C5: when the derivation is skipped\<close>

text \<open>
  C5 (amended).  The derivation is skipped exactly when the caller supplies \<^verbatim>\<open>shifts\<close>,
  whether or not \<^verbatim>\<open>weights\<close> come with them.  With \<^verbatim>\<open>shifts\<close> supplied the result does not
  depend on \<^verbatim>\<open>lanczos_tridiag\<close>, \<^verbatim>\<open>symeig\<close>, \<^verbatim>\<open>ellipk\<close>, \<^verbatim>\<open>ellipj\<close>, \<^verbatim>\<open>max_lanczos_iter\<close> or
  \<^verbatim>\<open>num_contour_quadrature\<close>: the call is the solve with the caller's weights and shifts.
  Without \<^verbatim>\<open>shifts\<close> the call is the derivation followed by the solve with the derived
  weights and shifts, whatever \<^verbatim>\<open>weights\<close> the caller passed.
\<close>

theorem derivation_skipped_iff_shifts_given:
  "contour_integral_quad (env\<lparr>lanczos_tridiag := f, symeig := g, ellipk := h, ellipj := k\<rparr>)
       lt rhs inverse_flag weights (Some s) max_lanczos_iter' num_contour_quadrature' st
     = contour_integral_quad env lt rhs inverse_flag weights (Some s)
         max_lanczos_iter num_contour_quadrature st \<and>
   contour_integral_quad env lt rhs inverse_flag weights (Some s)
       max_lanczos_iter num_contour_quadrature st
     = bind_err (mul_broadcast_shape (batch_shape lt) (butlast (butlast (shape rhs))))
         (\<lambda>output_batch_shape. solve_and_assemble env lt rhs inverse_flag weights s st) \<and>
   contour_integral_quad env lt rhs inverse_flag weights None
       max_lanczos_iter num_contour_quadrature st
     = bind_err (mul_broadcast_shape (batch_shape lt) (butlast (butlast (shape rhs))))
         (\<lambda>output_batch_shape.
            bind_err (derive_shifts_weights env lt rhs max_lanczos_iter num_contour_quadrature
                        output_batch_shape st)
              (\<lambda>(weights', shifts', st'). solve_and_assemble env lt rhs inverse_flag (Some weights') shifts' st'))"
proof -
  have "solve_and_assemble (env\<lparr>lanczos_tridiag := f, symeig := g, ellipk := h, ellipj := k\<rparr>)
           lt rhs inverse_flag weights s st
        = solve_and_assemble env lt rhs inverse_flag weights s st"
    by (simp add: solve_and_assemble_def)
  then show ?thesis
    by (simp add: contour_integral_quad_def prepare_shifts_def bind_err_def
        split: sum.splits prod.splits)
qed

theorem derivation_skipped_iff_shifts_given_witness:
  "contour_integral_quad (example_env\<lparr>lanczos_tridiag := lanczos_tridiag singular_env,
        symeig := (\<lambda>m. None), ellipk := (\<lambda>m. 0), ellipj := (\<lambda>u m. (0, 0, 0, 0))\<rparr>)
       example_lt example_rhs True None (Some \<lparr>shape = [2], data = [0, - 2]\<rparr>) 0 (- 1) stats_off
     = Inr ((\<lparr>shape = [1, 2, 1], data = [- (1 / 4), - (1 / 4)]\<rparr>, None,
             \<lparr>shape = [2, 1], data = [- (1 / 2), - (1 / 2)]\<rparr>,
             \<lparr>shape = [2], data = [0, - 2]\<rparr>), stats_off) \<and>
   contour_integral_quad example_env example_lt example_rhs True None None 7 (- 1) stats_off
     = Inl RuntimeError"
proof -
  note t = derivation_skipped_iff_shifts_given
    [where env = example_env and f = "lanczos_tridiag singular_env" and g = "\<lambda>m. None"
       and h = "\<lambda>m. 0" and k = "\<lambda>u m. (0, 0, 0, 0)" and lt = example_lt and rhs = example_rhs
       and inverse_flag = True and weights = None and s = "\<lparr>shape = [2], data = [0, - 2]\<rparr>"
       and max_lanczos_iter' = 0 and num_contour_quadrature' = "- 1" and st = stats_off]
  from t [where max_lanczos_iter = 7 and num_contour_quadrature = 1] ex_ciq_given_shifts
  have a: "contour_integral_quad (example_env\<lparr>lanczos_tridiag := lanczos_tridiag singular_env,
        symeig := (\<lambda>m. None), ellipk := (\<lambda>m. 0), ellipj := (\<lambda>u m. (0, 0, 0, 0))\<rparr>)
       example_lt example_rhs True None (Some \<lparr>shape = [2], data = [0, - 2]\<rparr>) 0 (- 1) stats_off
     = Inr ((\<lparr>shape = [1, 2, 1], data = [- (1 / 4), - (1 / 4)]\<rparr>, None,
             \<lparr>shape = [2, 1], data = [- (1 / 2), - (1 / 2)]\<rparr>,
             \<lparr>shape = [2], data = [0, - 2]\<rparr>), stats_off)"
    by simp
  from t [where max_lanczos_iter = 7 and num_contour_quadrature = "- 1"] ex_obs ex_derive_negative
  have b: "contour_integral_quad example_env example_lt example_rhs True None None 7 (- 1) stats_off
     = Inl RuntimeError"
    by simp
  from a b show ?thesis by simp
qed

text \<open>
  A caller who supplies \<^verbatim>\<open>weights\<close> but no \<^verbatim>\<open>shifts\<close> does not skip the derivation: the
  weights that come back are the derived ones, not the caller's.
\<close>

theorem weights_alone_counterexample:
  "contour_integral_quad example_env example_lt example_rhs True
       (Some \<lparr>shape = [1, 1, 1], data = [5]\<rparr>) None 7 1 stats_off
     = Inr ((\<lparr>shape = [1, 2, 1], data = [- (1 / 4), - (1 / 4)]\<rparr>,
             Some \<lparr>shape = [1, 1, 1], data = [- (2 * sqrt 2)]\<rparr>,
             \<lparr>shape = [2, 1], data = [- (1 / 2), - (1 / 2)]\<rparr>,
             \<lparr>shape = [2], data = [0, - 2]\<rparr>), stats_off) \<and>
   \<lparr>shape = [1, 1, 1], data = [- (2 * sqrt 2)]\<rparr> \<noteq> \<lparr>shape = [1, 1, 1], data = [5 :: real]\<rparr>"
proof -
  have "(0 :: real) \<le> sqrt 2" by simp
  then have "- (2 * sqrt 2) \<noteq> (5 :: real)" by linarith
  with ex_ciq_inverse_any_weights [of "Some \<lparr>shape = [1, 1, 1], data = [5]\<rparr>"] show ?thesis
    by simp
qed

subsection \<open>C6: divisors\<close>




subsection \<open>C7: the returned tuple\<close>

text \<open>
  C7 (amended).  Whenever \<^verbatim>\<open>contour_integral_quad\<close> returns
  \<^verbatim>\<open>(solves, weights, no_shift_solves, shifts)\<close>: \<^verbatim>\<open>no_shift_solves\<close> is the entry at index 0
  of the solver's stacked output; \<^verbatim>\<open>solves\<close> is the rest of that output in the order of the
  shifts when \<^verbatim>\<open>inverse=True\<close>, and \<^verbatim>\<open>_matmul\<close> of the operator applied to it when
  \<^verbatim>\<open>inverse=False\<close>; \<^verbatim>\<open>shifts\<close> is what the solver was called with and \<^verbatim>\<open>weights\<close> what the
  diagnostics used, both as they stand after the statement \<^verbatim>\<open>if shifts is None\<close>.
\<close>

theorem returned_tuple_components:
  assumes "contour_integral_quad env lt rhs inverse_flag weights shifts max_lanczos_iter
             num_contour_quadrature st = Inr ((solves, w, no_shift_solves, s), st')"
  shows "index0 (minres env (\<lambda>v. matmul lt v) rhs (- 1) s) = Inr no_shift_solves \<and>
         (\<exists>inverse_solves.
            slice_from1 (minres env (\<lambda>v. matmul lt v) rhs (- 1) s) = Inr inverse_solves \<and>
            solves = (if inverse_flag then inverse_solves else matmul lt inverse_solves) \<and>
            (\<exists>output_batch_shape st1.
               mul_broadcast_shape (batch_shape lt) (butlast (butlast (shape rhs))) = Inr output_batch_shape \<and>
               prepare_shifts env lt rhs weights shifts max_lanczos_iter num_contour_quadrature
                 output_batch_shape st = Inr (w, s, st1) \<and>
               record_solve_stats lt rhs no_shift_solves inverse_solves w st1 = Inr st'))"
proof -
  from assms obtain obs w1 s1 st1 where
    obs: "mul_broadcast_shape (batch_shape lt) (butlast (butlast (shape rhs))) = Inr obs"
    and p: "prepare_shifts env lt rhs weights shifts max_lanczos_iter num_contour_quadrature obs st
              = Inr (w1, s1, st1)"
    and sa: "solve_and_assemble env lt rhs inverse_flag w1 s1 st1
              = Inr ((solves, w, no_shift_solves, s), st')"
    by (auto simp: contour_integral_quad_eq_Inr)
  from sa have ws: "w = w1" "s = s1" by (simp_all add: solve_and_assemble_eq_Inr)
  from sa obs p show ?thesis
    unfolding solve_and_assemble_eq_Inr ws by blast
qed

theorem returned_tuple_components_witness:
  "contour_integral_quad example_env example_lt example_rhs True None None 7 1 stats_on
     = Inr ((\<lparr>shape = [1, 2, 1], data = [- (1 / 4), - (1 / 4)]\<rparr>,
             Some \<lparr>shape = [1, 1, 1], data = [- (2 * sqrt 2)]\<rparr>,
             \<lparr>shape = [2, 1], data = [- (1 / 2), - (1 / 2)]\<rparr>,
             \<lparr>shape = [2], data = [0, - 2]\<rparr>),
            stats_on\<lparr>condition_number := 1, minres_residual := 0, ciq_diff := 0\<rparr>) \<and>
   index0 (minres example_env (\<lambda>v. matmul example_lt v) example_rhs (- 1) \<lparr>shape = [2], data = [0, - 2]\<rparr>)
     = Inr \<lparr>shape = [2, 1], data = [- (1 / 2), - (1 / 2)]\<rparr> \<and>
   slice_from1 (minres example_env (\<lambda>v. matmul example_lt v) example_rhs (- 1) \<lparr>shape = [2], data = [0, - 2]\<rparr>)
     = Inr \<lparr>shape = [1, 2, 1], data = [- (1 / 4), - (1 / 4)]\<rparr>"
  using ex_ciq_on returned_tuple_components [OF ex_ciq_on] by auto

text \<open>
  With \<^verbatim>\<open>inverse=False\<close> the returned solves are not the per-shift solutions: for \<open>K = 2 I\<close>
  they are twice the solutions.
\<close>

theorem returned_solves_counterexample:
  "contour_integral_quad example_env example_lt example_rhs False None None 7 1 stats_off
     = Inr ((\<lparr>shape = [1, 2, 1], data = [- (1 / 2), - (1 / 2)]\<rparr>,
             Some \<lparr>shape = [1, 1, 1], data = [- (2 * sqrt 2)]\<rparr>,
             \<lparr>shape = [2, 1], data = [- (1 / 2), - (1 / 2)]\<rparr>,
             \<lparr>shape = [2], data = [0, - 2]\<rparr>), stats_off) \<and>
   slice_from1 (minres example_env (\<lambda>v. matmul example_lt v) example_rhs (- 1)
                  \<lparr>shape = [2], data = [0, - 2]\<rparr>)
     = Inr \<lparr>shape = [1, 2, 1], data = [- (1 / 4), - (1 / 4)]\<rparr> \<and>
   \<lparr>shape = [1, 2, 1], data = [- (1 / 2), - (1 / 2 :: real)]\<rparr>
     \<noteq> \<lparr>shape = [1, 2, 1], data = [- (1 / 4), - (1 / 4)]\<rparr>"
  using ex_ciq_forward ex_slice by simp

subsection \<open>C8: expansion to the output batch shape\<close>



subsection \<open>C9: shifts without weights\<close>

text \<open>
  C9 (amended).  Take a call with \<^verbatim>\<open>shifts\<close> supplied and \<^verbatim>\<open>weights\<close> left at \<^verbatim>\<open>None\<close>.  The
  derivation is skipped: the call is the solve with the caller's shifts.  Whenever the call
  returns, its second component is \<^verbatim>\<open>None\<close> and its fourth is the caller's shifts.  It does
  return when the diagnostics are off, the shapes can be broadcast and the solver's output
  has an entry at index 0.
\<close>

theorem shifts_without_weights:
  "(contour_integral_quad env lt rhs inverse_flag None (Some s) max_lanczos_iter
       num_contour_quadrature st = Inr ((solves, w, no_shift_solves, s'), st')
      \<longrightarrow> w = None \<and> s' = s) \<and>
   (\<not> on st \<and>
    mul_broadcast_shape (batch_shape lt) (butlast (butlast (shape rhs))) = Inr output_batch_shape \<and>
    index0 (minres env (\<lambda>v. matmul lt v) rhs (- 1) s) = Inr no_shift_solves
      \<longrightarrow> (\<exists>solves. contour_integral_quad env lt rhs inverse_flag None (Some s) max_lanczos_iter
                num_contour_quadrature st = Inr ((solves, None, no_shift_solves, s), st))) \<and>
   contour_integral_quad env lt rhs inverse_flag None (Some s) max_lanczos_iter num_contour_quadrature st
     = bind_err (mul_broadcast_shape (batch_shape lt) (butlast (butlast (shape rhs))))
         (\<lambda>output_batch_shape. solve_and_assemble env lt rhs inverse_flag None s st)"
proof -
  have a: "w = None \<and> s' = s"
    if "contour_integral_quad env lt rhs inverse_flag None (Some s) max_lanczos_iter
       num_contour_quadrature st = Inr ((solves, w, no_shift_solves, s'), st')"
  proof -
    from that have "solve_and_assemble env lt rhs inverse_flag None s st
        = Inr ((solves, w, no_shift_solves, s'), st')"
      by (auto simp: contour_integral_quad_eq_Inr prepare_shifts_def)
    then show ?thesis by (simp add: solve_and_assemble_eq_Inr)
  qed
  have b: "\<exists>solves. contour_integral_quad env lt rhs inverse_flag None (Some s) max_lanczos_iter
                num_contour_quadrature st = Inr ((solves, None, no_shift_solves, s), st)"
    if off: "\<not> on st"
      and obs: "mul_broadcast_shape (batch_shape lt) (butlast (butlast (shape rhs))) = Inr output_batch_shape"
      and i0: "index0 (minres env (\<lambda>v. matmul lt v) rhs (- 1) s) = Inr no_shift_solves"
  proof -
    from slice_from1_of_index0 [OF i0] obtain isv where
      sl: "slice_from1 (minres env (\<lambda>v. matmul lt v) rhs (- 1) s) = Inr isv" by blast
    have "solve_and_assemble env lt rhs inverse_flag None s st
        = Inr ((if inverse_flag then isv else matmul lt isv, None, no_shift_solves, s), st)"
      unfolding solve_and_assemble_eq_Inr using i0 sl off by (simp add: record_solve_stats_off)
    with obs show ?thesis
      by (auto simp: contour_integral_quad_eq_Inr prepare_shifts_def)
  qed
  have c: "contour_integral_quad env lt rhs inverse_flag None (Some s) max_lanczos_iter
             num_contour_quadrature st
     = bind_err (mul_broadcast_shape (batch_shape lt) (butlast (butlast (shape rhs))))
         (\<lambda>output_batch_shape. solve_and_assemble env lt rhs inverse_flag None s st)"
    by (simp add: contour_integral_quad_def prepare_shifts_def)
  from a b c show ?thesis by blast
qed

theorem shifts_without_weights_witness:
  "\<not> on stats_off \<and>
   mul_broadcast_shape (batch_shape example_lt) (butlast (butlast (shape example_rhs))) = Inr [] \<and>
   index0 (minres example_env (\<lambda>v. matmul example_lt v) example_rhs (- 1) \<lparr>shape = [2], data = [0, - 2]\<rparr>)
     = Inr \<lparr>shape = [2, 1], data = [- (1 / 2), - (1 / 2)]\<rparr> \<and>
   (\<exists>solves. contour_integral_quad example_env example_lt example_rhs True None
      (Some \<lparr>shape = [2], data = [0, - 2]\<rparr>) 7 1 stats_off
     = Inr ((solves, None, \<lparr>shape = [2, 1], data = [- (1 / 2), - (1 / 2)]\<rparr>,
             \<lparr>shape = [2], data = [0, - 2]\<rparr>), stats_off))"
proof -
  have off: "\<not> on stats_off" by (simp add: stats_off_def)
  from shifts_without_weights
    [where env = example_env and lt = example_lt and rhs = example_rhs and inverse_flag = True
       and s = "\<lparr>shape = [2], data = [0, - 2]\<rparr>" and st = stats_off and output_batch_shape = "[]"
       and no_shift_solves = "\<lparr>shape = [2, 1], data = [- (1 / 2), - (1 / 2)]\<rparr>"
       and max_lanczos_iter = 7 and num_contour_quadrature = 1]
    off ex_obs ex_index0
  show ?thesis by blast
qed

text \<open>
  With the diagnostics on, the product \<^verbatim>\<open>inverse_solves * weights\<close> of the second statistic
  meets \<^verbatim>\<open>weights = None\<close> and the call raises instead of returning.
\<close>

theorem no_weights_with_stats_counterexample:
  "contour_integral_quad example_env example_lt example_rhs True None
      (Some \<lparr>shape = [2], data = [0, - 2]\<rparr>) 7 1 stats_on = Inl TypeError"
  using ex_obs ex_solve_on_no_weights
  by (simp add: contour_integral_quad_def prepare_shifts_def)

subsection \<open>C10: transposing twice\<close>

text \<open>
  C10.  \<^verbatim>\<open>evaluate()\<close> on a \<^verbatim>\<open>NonLazyVariable\<close> returns exactly the wrapped tensor, and for
  every matrix \<open>v\<close> (a tensor with at least two dimensions, batched or not) both calls of
  \<^verbatim>\<open>_transpose_nonbatch\<close> return and the second one gives a variable whose \<^verbatim>\<open>evaluate()\<close>
  is \<open>v\<close> again: transposing the last two dimensions is an involution.
\<close>

theorem transpose_nonbatch_involution:
  "evaluate (NonLazyVariable_init v) = v \<and>
   (2 \<le> length (shape v) \<and> wf_tensor v \<longrightarrow>
      (\<exists>a b. transpose_nonbatch (NonLazyVariable_init v) = Inr a \<and>
             transpose_nonbatch a = Inr b \<and> evaluate b = v))"
proof -
  have "evaluate (NonLazyVariable_init v) = v"
    by (simp add: evaluate_def NonLazyVariable_init_def)
  moreover have "\<exists>a b. transpose_nonbatch (NonLazyVariable_init v) = Inr a \<and>
             transpose_nonbatch a = Inr b \<and> evaluate b = v"
    if "2 \<le> length (shape v)" and "wf_tensor v"
  proof -
    from transpose_last2_twice [OF that] obtain u
      where "transpose_last2 v = Inr u" and "transpose_last2 u = Inr v" by blast
    then show ?thesis
      by (simp add: transpose_nonbatch_def NonLazyVariable_init_def evaluate_def)
  qed
  ultimately show ?thesis by blast
qed

theorem transpose_nonbatch_involution_witness:
  "2 \<le> length (shape \<lparr>shape = [2, 3], data = [1, 2, 3, 4, 5, 6 :: int]\<rparr>) \<and>
   wf_tensor \<lparr>shape = [2, 3], data = [1, 2, 3, 4, 5, 6 :: int]\<rparr> \<and>
   transpose_nonbatch (NonLazyVariable_init \<lparr>shape = [2, 3], data = [1, 2, 3, 4, 5, 6 :: int]\<rparr>)
     = Inr (NonLazyVariable_init \<lparr>shape = [3, 2], data = [1, 4, 2, 5, 3, 6]\<rparr>) \<and>
   (\<exists>a b. transpose_nonbatch (NonLazyVariable_init \<lparr>shape = [2, 3], data = [1, 2, 3, 4, 5, 6 :: int]\<rparr>) = Inr a \<and>
          transpose_nonbatch a = Inr b \<and>
          evaluate b = \<lparr>shape = [2, 3], data = [1, 2, 3, 4, 5, 6 :: int]\<rparr>)"
proof -
  have h: "2 \<le> length (shape \<lparr>shape = [2, 3], data = [1, 2, 3, 4, 5, 6 :: int]\<rparr>) \<and>
           wf_tensor \<lparr>shape = [2, 3], data = [1, 2, 3, 4, 5, 6 :: int]\<rparr>"
    by (simp add: wf_tensor_def)
  have e: "transpose_nonbatch (NonLazyVariable_init \<lparr>shape = [2, 3], data = [1, 2, 3, 4, 5, 6 :: int]\<rparr>)
     = Inr (NonLazyVariable_init \<lparr>shape = [3, 2], data = [1, 4, 2, 5, 3, 6]\<rparr>)"
    by code_simp
  show ?thesis
    using h e transpose_nonbatch_involution [of "\<lparr>shape = [2, 3], data = [1, 2, 3, 4, 5, 6 :: int]\<rparr>"]
    by blast
qed

end
